theory Spec2Isabelle
  imports Main "HOL-Library.Word" "HOL-Library.Multiset"
begin

unbundle bit_operations_syntax

section \<open>Strings, request ids and chain ids (util.ts)\<close>

text \<open>
  JavaScript strings are modelled as \<open>string\<close>. Request ids and addresses are
  hexadecimal ASCII text, so \<open>String.prototype.toLowerCase\<close> is modelled on the ASCII
  letters: \<open>A\<close>..\<open>Z\<close> (codes 65..90) are moved to \<open>a\<close>..\<open>z\<close>, every other
  character is kept.
\<close>

definition lowerChar :: "char \<Rightarrow> char" where
  "lowerChar c =
     (let n = (of_char c :: nat) in if 65 \<le> n \<and> n \<le> 90 then char_of (n + 32) else c)"

definition toLowerCase :: "string \<Rightarrow> string" where
  "toLowerCase s = map lowerChar s"

text \<open>
  \<open>bigint\<close> values that come out of the ABI decoder are \<open>uint256\<close>, hence never
  negative: they are modelled as \<open>nat\<close>. \<open>Number(b)\<close> of such a bigint is the IEEE-754
  double nearest to \<open>b\<close>, ties to even. Below \<open>2^53\<close> the conversion is exact; from
  \<open>2^53\<close> on only the 53 leading bits survive, and the result is still a whole number,
  so it is modelled as a \<open>nat\<close>. (The model is used below \<open>2^1024\<close> only, where no
  infinity arises.)
\<close>

function bitLength :: "nat \<Rightarrow> nat" where
  "bitLength n = (if n = 0 then 0 else Suc (bitLength (n div 2)))"
  by pat_completeness auto
termination
  by (relation "measure id") auto

declare bitLength.simps [simp del]

definition bigintToNumber :: "nat \<Rightarrow> nat" where
  "bigintToNumber b =
     (if b < 2 ^ 53 then b
      else
        let sh = bitLength b - 53;
            q = b div 2 ^ sh;
            r = b mod 2 ^ sh;
            half = 2 ^ (sh - 1)
        in (if half < r \<or> (r = half \<and> odd q) then q + 1 else q) * 2 ^ sh)"

text \<open>
  \<^verbatim>\<open>normalizeChainId(chainId) = Number(chainId & BigInt('0xFFFFFFFFFFFFFFFF'))\<close>.
  The mask is \<open>2^64 - 1 = 18446744073709551615\<close>.
\<close>

definition normalizeChainId :: "nat \<Rightarrow> nat" where
  "normalizeChainId chainId = bigintToNumber (chainId AND 18446744073709551615)"

text \<open>
  \<^verbatim>\<open>toRequestId(hex)\<close> for a string argument: strip a leading \<open>0x\<close>, left-pad with
  \<open>0\<close> to 64 characters, keep the first 64, lower-case, put \<open>0x\<close> in front.
\<close>

definition padStart64 :: "string \<Rightarrow> string" where
  "padStart64 s = replicate (64 - length s) (CHR ''0'') @ s"

definition toRequestId :: "string \<Rightarrow> string" where
  "toRequestId hex =
     (let hexString = (if take 2 hex = ''0x'' then drop 2 hex else hex);
          padded = take 64 (padStart64 hexString)
      in ''0x'' @ toLowerCase padded)"

section \<open>Data model (model.ts)\<close>

record SwapRequestParameters =
  srcChainId :: nat
  dstChainId :: nat
  sender :: string
  recipient :: string
  tokenIn :: string
  tokenOut :: string
  amountOut :: nat
  verificationFee :: nat
  solverFee :: nat
  nonce :: nat
  executed :: bool
  requestedAt :: nat

text \<open>
  A condition of the scored evaluator's model: its \<open>params\<close> field is an untyped
  JavaScript record (\<^verbatim>\<open>Record<string, any>\<close>), kept abstract.
\<close>

typedecl JsAny

datatype ConditionType = Price | Time | Balance | Custom

datatype ConditionOperator = Gt | Lt | Eq | Gte | Lte | Between

record Condition =
  ctype :: ConditionType
  operator :: ConditionOperator
  cparams :: JsAny

text \<open>
  \<open>conditions\<close> is the optional field of the scored evaluator's \<open>Transfer\<close>; the
  simple evaluator's \<open>Transfer\<close> has no such field and never reads it.
\<close>

record Transfer =
  requestId :: string
  params :: SwapRequestParameters
  conditions :: "Condition list option"

record Trade =
  requestId :: string
  nonce :: nat
  tokenInAddr :: string
  tokenOutAddr :: string
  srcChainId :: nat
  destChainId :: nat
  senderAddr :: string
  recipientAddr :: string
  swapAmount :: nat

text \<open>
  \<open>ChainState.tokenBalances\<close> is a JavaScript \<open>Map\<close> object that the evaluators
  update in place. Every other field of a \<open>ChainState\<close> is only read. So the state
  holds a reference to the \<open>Map\<close>, and the \<open>Map\<close> objects live in a heap.
\<close>

type_synonym Ref = nat

type_synonym Heap = "Ref \<Rightarrow> (string \<rightharpoonup> nat)"

record ChainState =
  nativeBalance :: nat
  tokenBalances :: Ref
  transfers :: "Transfer list"
  alreadyFulfilled :: "string list"

type_synonym States = "nat \<rightharpoonup> ChainState"

datatype error =
    ChainNotFound nat
  | StateNotFound nat
  | FetchFailed
  | RouterNotFound nat
  | TokensNotFound nat
  | TokenContractNotFound string
  | TradeExecutionTimeout
  | ERC20ApprovalError
  | ErrorApprovingFunds
  | SwapRequestParametersMismatch
  | RouterRelayError
  | ErrorSubmittingSwap
  | CacheFull

section \<open>The in-flight cache\<close>

text \<open>
  Modelled from the spec: the in-flight cache is an instance of the third-party
  \<open>NodeCache\<close> class, whose code is not part of the repository. It is modelled as the
  TTL map of the specification: a key is mapped to the time (in milliseconds) at which
  it expires, expiry is checked when the key is read, \<open>set\<close> stores a key with a TTL
  given in seconds, \<open>del\<close> removes it. The evaluators only ask \<open>has\<close>; for them
  the cache is this map.
\<close>

type_synonym NodeCache = "string \<rightharpoonup> nat"

definition cache_has :: "NodeCache \<Rightarrow> nat \<Rightarrow> string \<Rightarrow> bool" where
  "cache_has c now k = (case c k of None \<Rightarrow> False | Some expiry \<Rightarrow> now \<le> expiry)"

definition cache_set :: "NodeCache \<Rightarrow> nat \<Rightarrow> string \<Rightarrow> nat \<Rightarrow> NodeCache" where
  "cache_set c now k ttl = c(k \<mapsto> now + ttl * 1000)"

definition cache_del :: "NodeCache \<Rightarrow> string \<Rightarrow> NodeCache" where
  "cache_del c k = c(k := None)"

text \<open>
  The executor writes to the cache, so for it the cache object is modelled with its
  capacity cap as well: \<open>entries\<close> is the TTL map, \<open>keys\<close> the number of keys
  the object counts (\<open>stats.keys\<close>), \<open>maxKeys\<close> the cap it was built with
  (\<open>App.start\<close> builds it with \<open>maxKeys: 1000\<close>; \<open>None\<close> is no cap).
  \<^item> \<open>has\<close> answers as \<open>cache_has\<close> does, and removes the key when it finds it
    expired;
  \<^item> \<open>set\<close> on a cache whose count has reached the cap throws the error
    \<open>ECACHEFULL\<close> and stores nothing (the class does not evict); otherwise it stores
    the key and counts it when it is new;
  \<^item> \<open>del\<close> removes a key that is present and lowers the count.
  The sweep of expired keys that the class runs on a timer of its own (every 600
  seconds) is left out.
\<close>

record InFlightCache =
  entries :: NodeCache
  keys :: nat
  maxKeys :: "nat option"

definition cacheFull :: "InFlightCache \<Rightarrow> bool" where
  "cacheFull c = (case maxKeys c of None \<Rightarrow> False | Some m \<Rightarrow> m \<le> keys c)"

definition inFlight_has :: "InFlightCache \<Rightarrow> nat \<Rightarrow> string \<Rightarrow> bool \<times> InFlightCache" where
  "inFlight_has c now k =
     (case entries c k of
        None \<Rightarrow> (False, c)
      | Some expiry \<Rightarrow>
          if now \<le> expiry then (True, c)
          else (False, c\<lparr>entries := cache_del (entries c) k, keys := keys c - 1\<rparr>))"

definition inFlight_set :: "InFlightCache \<Rightarrow> nat \<Rightarrow> string \<Rightarrow> nat \<Rightarrow> error + InFlightCache" where
  "inFlight_set c now k ttl =
     (if cacheFull c then Inl CacheFull
      else Inr (c\<lparr>entries := cache_set (entries c) now k ttl,
                   keys := (if entries c k = None then keys c + 1 else keys c)\<rparr>))"

definition inFlight_del :: "InFlightCache \<Rightarrow> string \<Rightarrow> InFlightCache" where
  "inFlight_del c k =
     (if entries c k = None then c
      else c\<lparr>entries := cache_del (entries c) k, keys := keys c - 1\<rparr>)"

section \<open>Simple evaluator (solver.ts)\<close>

text \<open>
  The solver object: \<open>states\<close> is the persistent State Store, \<open>chains\<close> the
  configured providers (of an arbitrary type \<open>'p\<close>).
\<close>

record 'p Solver =
  states :: States
  chains :: "nat \<rightharpoonup> 'p"

text \<open>
  \<^verbatim>\<open>destState.alreadyFulfilled.some((id) => id.toLowerCase() === normalizedRequestId)\<close>
\<close>

definition isFulfilled :: "ChainState \<Rightarrow> string \<Rightarrow> bool" where
  "isFulfilled destState rid =
     list_ex (\<lambda>id. toLowerCase id = toLowerCase rid) (alreadyFulfilled destState)"

text \<open>The object literal that \<open>solve\<close> returns.\<close>

definition toTrade :: "Transfer \<Rightarrow> Trade" where
  "toTrade transfer =
     \<lparr> Trade.requestId = Transfer.requestId transfer,
       Trade.nonce = SwapRequestParameters.nonce (params transfer),
       tokenInAddr = toLowerCase (tokenIn (params transfer)),
       tokenOutAddr = toLowerCase (tokenOut (params transfer)),
       Trade.srcChainId = SwapRequestParameters.srcChainId (params transfer),
       destChainId = dstChainId (params transfer),
       senderAddr = toLowerCase (sender (params transfer)),
       recipientAddr = toLowerCase (recipient (params transfer)),
       swapAmount = amountOut (params transfer) \<rparr>"

text \<open>
  \<open>Solver.solve\<close>: every \<^verbatim>\<open>return null\<close> is \<open>None\<close> with the heap untouched; the
  last branch writes \<open>tokenBalance - amountOut\<close> into the destination state's
  \<open>Map\<close> object and returns the trade.
\<close>

definition solve :: "Transfer \<Rightarrow> States \<Rightarrow> Heap \<Rightarrow> Trade option \<times> Heap" where
  "solve transfer sts h =
     (case sts (normalizeChainId (dstChainId (params transfer))) of
        None \<Rightarrow> (None, h)
      | Some destState \<Rightarrow>
          if executed (params transfer) then (None, h)
          else if isFulfilled destState (Transfer.requestId transfer) then (None, h)
          else if nativeBalance destState = 0 then (None, h)
          else
            (let tokenAddress = toLowerCase (tokenOut (params transfer)) in
             case h (tokenBalances destState) tokenAddress of
               None \<Rightarrow> (None, h)
             | Some tokenBalance \<Rightarrow>
                 if tokenBalance = 0 \<or> tokenBalance < amountOut (params transfer)
                 then (None, h)
                 else if solverFee (params transfer) < 1 then (None, h)
                 else
                   (Some (toTrade transfer),
                    h(tokenBalances destState :=
                        (h (tokenBalances destState))
                          (tokenAddress \<mapsto> tokenBalance - amountOut (params transfer))))))"

text \<open>
  The \<^verbatim>\<open>for (const transfer of unfulfilledTransfers)\<close> loop of
  \<open>calculateTrades\<close>: a transfer in flight is skipped, every other one is handed to
  \<open>solve\<close>; trades are collected in loop order.
\<close>

fun solveAll :: "States \<Rightarrow> NodeCache \<Rightarrow> nat \<Rightarrow> Transfer list \<Rightarrow> Heap \<Rightarrow> Trade list \<times> Heap" where
  "solveAll sts inFlight now [] h = ([], h)"
| "solveAll sts inFlight now (transfer # rest) h =
     (if cache_has inFlight now (Transfer.requestId transfer)
      then solveAll sts inFlight now rest h
      else
        (case solve transfer sts h of
           (None, h1) \<Rightarrow> solveAll sts inFlight now rest h1
         | (Some trade, h1) \<Rightarrow>
             (case solveAll sts inFlight now rest h1 of
                (trades, h2) \<Rightarrow> (trade # trades, h2))))"

text \<open>
  The pre-filter of \<open>calculateTrades\<close> (shared by both evaluators): a transfer is
  kept when its destination state is unknown or does not list it as fulfilled.
\<close>

definition unfulfilledTransfers :: "States \<Rightarrow> Transfer list \<Rightarrow> Transfer list" where
  "unfulfilledTransfers sts ts =
     filter (\<lambda>transfer.
        case sts (normalizeChainId (dstChainId (params transfer))) of
          None \<Rightarrow> True
        | Some destState \<Rightarrow> \<not> isFulfilled destState (Transfer.requestId transfer)) ts"

text \<open>
  \<open>Solver.calculateTrades\<close>. \<^verbatim>\<open>new Map(this.states)\<close> copies the table from chain
  ids to \<open>ChainState\<close> objects, not the objects: the copy holds the same references
  into the heap as \<open>this.states\<close>. The copy itself is never written to, so it is the
  same table.
\<close>

definition calculateTrades ::
  "'p Solver \<Rightarrow> Heap \<Rightarrow> nat \<Rightarrow> NodeCache \<Rightarrow> nat \<Rightarrow> error + (Trade list \<times> Heap)" where
  "calculateTrades solver h chainId inFlight now =
     (let sts = states solver in
      case sts chainId of
        None \<Rightarrow> Inl (StateNotFound chainId)
      | Some chainState \<Rightarrow>
          Inr (solveAll sts inFlight now (unfulfilledTransfers sts (transfers chainState)) h))"

text \<open>
  \<open>Solver.fetchState\<close>. The provider's \<open>fetchState\<close> is input/output: \<open>fetch\<close>
  gives its outcome, a new \<open>ChainState\<close> whose \<open>Map\<close> it has put into the heap, or
  a failure. The result is the returned trade list or the thrown error, the solver and
  the heap afterwards.
\<close>

definition fetchState ::
  "('p \<Rightarrow> Heap \<Rightarrow> error + (ChainState \<times> Heap)) \<Rightarrow> 'p Solver \<Rightarrow> Heap \<Rightarrow> nat \<Rightarrow> NodeCache \<Rightarrow> nat
    \<Rightarrow> (error + Trade list) \<times> 'p Solver \<times> Heap" where
  "fetchState fetch solver h chainId inFlight now =
     (case chains solver chainId of
        None \<Rightarrow> (Inl (ChainNotFound chainId), solver, h)
      | Some chain \<Rightarrow>
          (case fetch chain h of
             Inl e \<Rightarrow> (Inl e, solver, h)
           | Inr (updatedState, h1) \<Rightarrow>
               (let solver1 = solver\<lparr>states := (states solver)(chainId \<mapsto> updatedState)\<rparr> in
                case calculateTrades solver1 h1 chainId inFlight now of
                  Inl e \<Rightarrow> (Inl e, solver1, h1)
                | Inr (trades, h2) \<Rightarrow> (Inr trades, solver1, h2))))"

section \<open>Scored evaluator (SolverV2)\<close>

text \<open>
  The parts of the scored evaluator that work on wall-clock time, external oracles,
  caller-supplied closures and floating-point numbers are parameters of the model:
  \<^item> \<open>evaluateCondition\<close>: the outcome of \<open>ConditionEvaluator.evaluateCondition\<close>;
  \<^item> \<open>riskBelowMax\<close>: the test \<^verbatim>\<open>risk < this.riskManager.maxRisk\<close> on the double
    that \<open>RiskManager.assessRisk\<close> returns;
  \<^item> \<open>score\<close>: the double \<^verbatim>\<open>profitScore - (risk * 10)\<close>, a finite number, in any
    linearly ordered type;
  \<^item> \<open>minSolverFee\<close>: the field of the \<open>RiskManager\<close> (default \<open>10^15\<close>).
\<close>

record 's Scoring =
  evaluateCondition :: "Condition \<Rightarrow> Transfer \<Rightarrow> States \<Rightarrow> Heap \<Rightarrow> bool"
  riskBelowMax :: "Trade \<Rightarrow> Transfer \<Rightarrow> States \<Rightarrow> Heap \<Rightarrow> bool"
  score :: "Trade \<Rightarrow> Transfer \<Rightarrow> States \<Rightarrow> Heap \<Rightarrow> 's"
  minSolverFee :: nat

text \<open>
  \<open>ConditionEvaluator.evaluateConditions\<close>: no conditions, or an empty list, is
  \<open>true\<close>; otherwise the loop stops at the first condition that fails.
\<close>

definition evaluateConditions ::
  "'s Scoring \<Rightarrow> Condition list \<Rightarrow> Transfer \<Rightarrow> States \<Rightarrow> Heap \<Rightarrow> bool" where
  "evaluateConditions sc conds transfer sts h =
     list_all (\<lambda>c. evaluateCondition sc c transfer sts h) conds"

text \<open>
  \<open>SolverV2.solve\<close>: the checks of the simple evaluator with the configurable fee
  floor, and no write to the balances.
\<close>

definition solveV2 :: "'s Scoring \<Rightarrow> Transfer \<Rightarrow> States \<Rightarrow> Heap \<Rightarrow> Trade option" where
  "solveV2 sc transfer sts h =
     (case sts (normalizeChainId (dstChainId (params transfer))) of
        None \<Rightarrow> None
      | Some destState \<Rightarrow>
          if executed (params transfer) then None
          else if isFulfilled destState (Transfer.requestId transfer) then None
          else if nativeBalance destState = 0 then None
          else
            (case h (tokenBalances destState) (toLowerCase (tokenOut (params transfer))) of
               None \<Rightarrow> None
             | Some tokenBalance \<Rightarrow>
                 if tokenBalance = 0 \<or> tokenBalance < amountOut (params transfer) then None
                 else if solverFee (params transfer) < minSolverFee sc then None
                 else Some (toTrade transfer)))"

text \<open>
  The first loop of \<open>SolverV2.calculateTrades\<close>: it collects the potential trades,
  each with the transfer it comes from, and does not write to the heap.
\<close>

fun potentialTrades ::
  "'s Scoring \<Rightarrow> States \<Rightarrow> NodeCache \<Rightarrow> nat \<Rightarrow> Heap \<Rightarrow> Transfer list \<Rightarrow> (Trade \<times> Transfer) list" where
  "potentialTrades sc sts inFlight now h [] = []"
| "potentialTrades sc sts inFlight now h (transfer # rest) =
     (if cache_has inFlight now (Transfer.requestId transfer)
      then potentialTrades sc sts inFlight now h rest
      else if (case conditions transfer of
                 None \<Rightarrow> False
               | Some conds \<Rightarrow> conds \<noteq> [] \<and> \<not> evaluateConditions sc conds transfer sts h)
      then potentialTrades sc sts inFlight now h rest
      else
        (case solveV2 sc transfer sts h of
           None \<Rightarrow> potentialTrades sc sts inFlight now h rest
         | Some trade \<Rightarrow>
             if riskBelowMax sc trade transfer sts h
             then (trade, transfer) # potentialTrades sc sts inFlight now h rest
             else potentialTrades sc sts inFlight now h rest))"

text \<open>
  \<^verbatim>\<open>potentialTrades.sort((a, b) => b.score - a.score)\<close>: highest score first; the
  sort of the language is stable, so candidates of equal score keep their order.
\<close>

definition sortByScore :: "('a \<Rightarrow> 's::linorder) \<Rightarrow> 'a list \<Rightarrow> 'a list" where
  "sortByScore f xs = rev (sort_key f (rev xs))"

text \<open>
  The commit pass: \<^verbatim>\<open>tokenBalances.get(trade.tokenOutAddr) || BigInt(0)\<close> reads a
  missing entry as 0; a candidate whose amount is covered is debited in the
  destination state's \<open>Map\<close> object and emitted.
\<close>

fun commitTrades :: "States \<Rightarrow> (Trade \<times> Transfer) list \<Rightarrow> Heap \<Rightarrow> Trade list \<times> Heap" where
  "commitTrades sts [] h = ([], h)"
| "commitTrades sts ((trade, transfer) # rest) h =
     (case sts (normalizeChainId (destChainId trade)) of
        None \<Rightarrow> commitTrades sts rest h
      | Some destState \<Rightarrow>
          (let tokenBalance =
                 (case h (tokenBalances destState) (tokenOutAddr trade) of
                    None \<Rightarrow> 0
                  | Some b \<Rightarrow> b)
           in if swapAmount trade \<le> tokenBalance
              then
                (case commitTrades sts rest
                        (h(tokenBalances destState :=
                             (h (tokenBalances destState))
                               (tokenOutAddr trade \<mapsto> tokenBalance - swapAmount trade))) of
                   (trades, h1) \<Rightarrow> (trade # trades, h1))
              else commitTrades sts rest h))"

definition calculateTradesV2 ::
  "'s::linorder Scoring \<Rightarrow> 'p Solver \<Rightarrow> Heap \<Rightarrow> nat \<Rightarrow> NodeCache \<Rightarrow> nat
    \<Rightarrow> error + (Trade list \<times> Heap)" where
  "calculateTradesV2 sc solver h chainId inFlight now =
     (let sts = states solver in
      case sts chainId of
        None \<Rightarrow> Inl (StateNotFound chainId)
      | Some chainState \<Rightarrow>
          (let potential =
                 potentialTrades sc sts inFlight now h
                   (unfulfilledTransfers sts (transfers chainState));
               acceptableTrades =
                 sortByScore (\<lambda>(trade, transfer). score sc trade transfer sts h) potential
           in Inr (commitTrades sts acceptableTrades h)))"

section \<open>Profit estimate (ProfitOptimizer, GasPriceEstimator)\<close>

text \<open>
  The gas-price cache maps a chain id to a price and the time it was stored at. Times
  are \<open>Date.now()\<close> values; their difference is taken in \<open>int\<close>.
\<close>

type_synonym GasCache = "nat \<rightharpoonup> (nat \<times> int)"

definition defaultGasPrices :: "nat \<rightharpoonup> nat" where
  "defaultGasPrices =
     [1 \<mapsto> 20000000000, 137 \<mapsto> 30000000000, 42161 \<mapsto> 100000000, 10 \<mapsto> 1000000]"

text \<open>
  \<^verbatim>\<open>defaultGasPrices[chainId] || BigInt(20000000000)\<close>: a missing entry, or a zero
  one, gives the default.
\<close>

definition freshGasPrice :: "nat \<Rightarrow> nat" where
  "freshGasPrice chainId =
     (case defaultGasPrices chainId of
        None \<Rightarrow> 20000000000
      | Some g \<Rightarrow> if g = 0 then 20000000000 else g)"

definition getGasPrice :: "GasCache \<Rightarrow> int \<Rightarrow> nat \<Rightarrow> nat \<times> GasCache" where
  "getGasPrice cache now chainId =
     (case cache chainId of
        Some (gasPrice, timestamp) \<Rightarrow>
          if now - timestamp < 30000 then (gasPrice, cache)
          else (freshGasPrice chainId, cache(chainId \<mapsto> (freshGasPrice chainId, now)))
      | None \<Rightarrow> (freshGasPrice chainId, cache(chainId \<mapsto> (freshGasPrice chainId, now))))"

definition estimateGasCost :: "GasCache \<Rightarrow> int \<Rightarrow> Trade \<Rightarrow> nat \<times> GasCache" where
  "estimateGasCost cache now trade =
     (case getGasPrice cache now (normalizeChainId (destChainId trade)) of
        (gasPrice, cache1) \<Rightarrow> (150000 * gasPrice, cache1))"

definition estimateOpportunityCost :: "Trade \<Rightarrow> nat" where
  "estimateOpportunityCost trade = (swapAmount trade * 1000 * 60) div 3600000"

text \<open>The difference can be negative, so the profit is computed in \<open>int\<close>.\<close>

definition estimateProfit :: "GasCache \<Rightarrow> int \<Rightarrow> Trade \<Rightarrow> Transfer \<Rightarrow> int \<times> GasCache" where
  "estimateProfit cache now trade transfer =
     (case estimateGasCost cache now trade of
        (gasCost, cache1) \<Rightarrow>
          (let profit = int (solverFee (params transfer)) - int gasCost
                          - int (estimateOpportunityCost trade)
           in (if 0 < profit then profit else 0, cache1)))"

text \<open>
  \<open>calculateProfitScore\<close> returns a double: 0 when the fee is 0, else
  \<^verbatim>\<open>Number(profit) / Number(solverFee)\<close>. Both operands are whole-valued doubles
  (\<open>bigintToNumber\<close>); the division of doubles is the parameter \<open>numberDiv\<close>, the
  double zero is \<open>numberZero\<close>.
\<close>

definition calculateProfitScore ::
  "'f \<Rightarrow> (nat \<Rightarrow> nat \<Rightarrow> 'f) \<Rightarrow> GasCache \<Rightarrow> int \<Rightarrow> Trade \<Rightarrow> Transfer \<Rightarrow> 'f \<times> GasCache" where
  "calculateProfitScore numberZero numberDiv cache now trade transfer =
     (case estimateProfit cache now trade transfer of
        (profit, cache1) \<Rightarrow>
          if solverFee (params transfer) = 0 then (numberZero, cache1)
          else (numberDiv (bigintToNumber (nat profit))
                          (bigintToNumber (solverFee (params transfer))), cache1))"

section \<open>Executor (executor.ts)\<close>

text \<open>
  A contract object is known by its address (\<open>target\<close>): \<open>routers\<close> maps a chain
  id to the router's address, \<open>tokens\<close> to the addresses of the configured tokens.
\<close>

record Executor =
  ownAddress :: string
  routers :: "nat \<rightharpoonup> string"
  tokens :: "nat \<rightharpoonup> string list"

text \<open>The arguments of one \<open>relayTokens\<close> call, in the order of the call.\<close>

record RelayArgs =
  relaySolver :: string
  relayRequestId :: string
  relaySender :: string
  relayRecipient :: string
  relayTokenIn :: string
  relayTokenOut :: string
  relayAmountOut :: nat
  relaySrcChainId :: nat
  relayNonce :: nat

text \<open>
  The calls that leave the process: the parameter lookup on a router, \<open>approve\<close> on
  a token (spender, amount), \<open>relayTokens\<close> on a router.
\<close>

datatype Call =
    GetSwapRequestParameters string string
  | Approve string string nat
  | RelayTokens string RelayArgs

text \<open>
  What the network answers while one trade is executed. A transaction is confirmed,
  or its receipt is missing, or its status is 0, or the call throws an error that may
  carry a \<open>reason\<close> and a \<open>data\<close> field. \<open>storedParams\<close> is the record the
  destination router returns (in either of its two encodings), \<open>None\<close> when the lookup
  or its decoding throws. \<open>timeoutFirst\<close> says that the 10 second timer settles before
  \<open>executeTradeInternal\<close> does; \<open>relayIssuedBeforeTimeout\<close>, read in that case
  only, says whether \<open>relayTokens\<close> had been called by then; \<open>elapsed\<close> is the time
  until \<open>executeTrade\<close> settles.
\<close>

datatype TxOutcome =
    TxConfirmed
  | TxNoReceipt
  | TxStatusZero
  | TxThrown bool "string option"

record Response =
  storedParams :: "SwapRequestParameters option"
  approveOutcome :: TxOutcome
  relayOutcome :: TxOutcome
  timeoutFirst :: bool
  relayIssuedBeforeTimeout :: bool
  elapsed :: nat

text \<open>The seven \<open>actual...\<close> variables of \<open>executeTrade\<close>.\<close>

record Actual =
  actualTokenIn :: string
  actualTokenOut :: string
  actualSender :: string
  actualRecipient :: string
  actualAmountOut :: nat
  actualSrcChainId :: nat
  actualNonce :: nat

definition zeroAddress :: string where
  "zeroAddress = ''0x0000000000000000000000000000000000000000''"

text \<open>
  The reconciliation of \<open>executeTrade\<close>: the variables start from the trade, and are
  all replaced by the stored record when its \<open>srcChainId\<close> is not 0 and its
  lower-cased \<open>sender\<close> is not the zero address. A lookup that throws leaves them as
  they are.
\<close>

definition reconcile :: "Trade \<Rightarrow> SwapRequestParameters option \<Rightarrow> Actual" where
  "reconcile trade stored =
     (let fromTrade =
            \<lparr> actualTokenIn = toLowerCase (tokenInAddr trade),
              actualTokenOut = toLowerCase (tokenOutAddr trade),
              actualSender = toLowerCase (senderAddr trade),
              actualRecipient = toLowerCase (recipientAddr trade),
              actualAmountOut = swapAmount trade,
              actualSrcChainId = Trade.srcChainId trade,
              actualNonce = Trade.nonce trade \<rparr>
      in case stored of
           None \<Rightarrow> fromTrade
         | Some p \<Rightarrow>
             if SwapRequestParameters.srcChainId p \<noteq> 0 \<and> toLowerCase (sender p) \<noteq> zeroAddress
             then \<lparr> actualTokenIn = toLowerCase (tokenIn p),
                    actualTokenOut = toLowerCase (tokenOut p),
                    actualSender = toLowerCase (sender p),
                    actualRecipient = toLowerCase (recipient p),
                    actualAmountOut = amountOut p,
                    actualSrcChainId = SwapRequestParameters.srcChainId p,
                    actualNonce = SwapRequestParameters.nonce p \<rparr>
             else fromTrade)"

text \<open>
  \<open>executeTradeInternal\<close>: approve, then relay. Each step's \<open>catch\<close> also catches
  the errors thrown inside its own \<open>try\<close> for a missing receipt and a zero status;
  those have neither \<open>reason\<close> nor \<open>data\<close>.
\<close>

definition relayArgs :: "Executor \<Rightarrow> string \<Rightarrow> Actual \<Rightarrow> RelayArgs" where
  "relayArgs ex paddedRequestId a =
     \<lparr> relaySolver = toLowerCase (ownAddress ex),
       relayRequestId = paddedRequestId,
       relaySender = toLowerCase (actualSender a),
       relayRecipient = toLowerCase (actualRecipient a),
       relayTokenIn = toLowerCase (actualTokenIn a),
       relayTokenOut = toLowerCase (actualTokenOut a),
       relayAmountOut = actualAmountOut a,
       relaySrcChainId = actualSrcChainId a,
       relayNonce = actualNonce a \<rparr>"

definition approveError :: "TxOutcome \<Rightarrow> error" where
  "approveError outcome =
     (case outcome of
        TxThrown hasReason errorData \<Rightarrow>
          if hasReason then ERC20ApprovalError else ErrorApprovingFunds
      | _ \<Rightarrow> ErrorApprovingFunds)"

definition relayError :: "TxOutcome \<Rightarrow> error" where
  "relayError outcome =
     (case outcome of
        TxThrown hasReason errorData \<Rightarrow>
          if (case errorData of None \<Rightarrow> False | Some d \<Rightarrow> take 10 d = ''0xc4fec7e0'')
          then SwapRequestParametersMismatch
          else if hasReason then RouterRelayError else ErrorSubmittingSwap
      | _ \<Rightarrow> ErrorSubmittingSwap)"

definition executeTradeInternal ::
  "Executor \<Rightarrow> string \<Rightarrow> string \<Rightarrow> string \<Rightarrow> Actual \<Rightarrow> Response \<Rightarrow> (error + unit) \<times> Call list" where
  "executeTradeInternal ex router token paddedRequestId a resp =
     (if approveOutcome resp \<noteq> TxConfirmed
      then (Inl (approveError (approveOutcome resp)), [Approve token router (actualAmountOut a)])
      else if relayOutcome resp \<noteq> TxConfirmed
      then (Inl (relayError (relayOutcome resp)),
            [Approve token router (actualAmountOut a),
             RelayTokens router (relayArgs ex paddedRequestId a)])
      else (Inr (),
            [Approve token router (actualAmountOut a),
             RelayTokens router (relayArgs ex paddedRequestId a)]))"

text \<open>
  \<open>executeTrade\<close>: the result, and the calls issued in order. When the timer settles
  first the result is the timeout error, whatever \<open>executeTradeInternal\<close> goes on to
  do.
\<close>

definition executeTrade :: "Executor \<Rightarrow> Trade \<Rightarrow> Response \<Rightarrow> (error + unit) \<times> Call list" where
  "executeTrade ex trade resp =
     (let destChain = normalizeChainId (destChainId trade) in
      case routers ex destChain of
        None \<Rightarrow> (Inl (RouterNotFound destChain), [])
      | Some router \<Rightarrow>
          (let paddedRequestId = toRequestId (Trade.requestId trade);
               a = reconcile trade (storedParams resp);
               lookup = [GetSwapRequestParameters router paddedRequestId]
           in case tokens ex destChain of
                None \<Rightarrow> (Inl (TokensNotFound destChain), lookup)
              | Some tokenContracts \<Rightarrow>
                  (case find (\<lambda>target. toLowerCase target = toLowerCase (actualTokenOut a))
                          tokenContracts of
                     None \<Rightarrow> (Inl (TokenContractNotFound (actualTokenOut a)), lookup)
                   | Some token \<Rightarrow>
                       (case executeTradeInternal ex router token paddedRequestId a resp of
                          (result, calls) \<Rightarrow>
                            (if timeoutFirst resp then Inl TradeExecutionTimeout else result,
                             lookup @ calls)))))"

text \<open>
  \<open>Promise.race\<close> does not stop \<open>executeTradeInternal\<close>: when the timer settles
  first, \<open>executeTrade\<close> rejects at once, and \<open>executeTradeInternal\<close> goes on by
  itself. The lookup and \<open>approve\<close> are always called before the timer can settle
  (\<open>approve\<close> is called when \<open>executeTradeInternal\<close> is started);
  \<open>relayTokens\<close> is called before it or later, as the answer says. So the calls of a
  trade fall into those issued before \<open>executeTrade\<close> settles and those issued later.
\<close>

definition isRelay :: "Call \<Rightarrow> bool" where
  "isRelay c = (case c of RelayTokens router args \<Rightarrow> True | _ \<Rightarrow> False)"

definition issuedBeforeSettle :: "Response \<Rightarrow> Call list \<Rightarrow> Call list" where
  "issuedBeforeSettle resp calls =
     (if timeoutFirst resp \<and> \<not> relayIssuedBeforeTimeout resp
      then filter (\<lambda>c. \<not> isRelay c) calls else calls)"

definition issuedLater :: "Response \<Rightarrow> Call list \<Rightarrow> Call list" where
  "issuedLater resp calls =
     (if timeoutFirst resp \<and> \<not> relayIssuedBeforeTimeout resp
      then filter isRelay calls else [])"

text \<open>
  \<open>execute\<close>: each trade of the list comes with the answers the network gives if it
  is executed. The result is how \<open>execute\<close> ends (\<open>Inl\<close> is the error it throws),
  the cache and the clock at that point, and the log of what was done, in order.
  \<open>inFlight.set\<close> stands before the \<open>try\<close>: when it throws, \<open>execute\<close> throws,
  and the rest of the list is not looked at. A \<open>LateNetwork\<close> event is a call that
  \<open>executeTradeInternal\<close> issues after \<open>executeTrade\<close> has timed out: it happens at
  some time after the \<open>InFlightDel\<close> of its trade, while \<open>execute\<close> goes on with
  the rest of the list; its place in the log says no more than that.
\<close>

datatype Event =
    Skipped string
  | InFlightSet string nat
  | Network Call
  | InFlightDel string
  | LateNetwork Call
  | Traded string

fun execute ::
  "Executor \<Rightarrow> (Trade \<times> Response) list \<Rightarrow> InFlightCache \<Rightarrow> nat
    \<Rightarrow> (error + unit) \<times> InFlightCache \<times> nat \<times> Event list" where
  "execute ex [] inFlight now = (Inr (), inFlight, now, [])"
| "execute ex ((trade, resp) # rest) inFlight now =
     (case inFlight_has inFlight now (Trade.requestId trade) of
        (present, inFlight0) \<Rightarrow>
          if present
          then
            (case execute ex rest inFlight0 now of
               (r, c, t, evs) \<Rightarrow> (r, c, t, Skipped (Trade.requestId trade) # evs))
          else
            (case inFlight_set inFlight0 now (Trade.requestId trade) 30 of
               Inl e \<Rightarrow> (Inl e, inFlight0, now, [])
             | Inr inFlight1 \<Rightarrow>
                 (case executeTrade ex trade resp of
                    (Inr u, calls) \<Rightarrow>
                      (case execute ex rest inFlight1 (now + elapsed resp) of
                         (r, c, t, evs) \<Rightarrow>
                           (r, c, t,
                            InFlightSet (Trade.requestId trade) 30 # map Network calls
                              @ Traded (Trade.requestId trade) # evs))
                  | (Inl e, calls) \<Rightarrow>
                      (case execute ex rest (inFlight_del inFlight1 (Trade.requestId trade))
                              (now + elapsed resp) of
                         (r, c, t, evs) \<Rightarrow>
                           (r, c, t,
                            InFlightSet (Trade.requestId trade) 30
                              # map Network (issuedBeforeSettle resp calls)
                              @ InFlightDel (Trade.requestId trade)
                              # map LateNetwork (issuedLater resp calls) @ evs)))))"

section \<open>Ingestion of request ids (network.ts)\<close>

text \<open>
  \<open>Network.fetchState\<close> is the provider of every \<open>ChainState\<close>. It passes each
  request id the router returns through \<open>toRequestId\<close>: the ids of the fulfilled
  transfers, and the id of each open request, from which it assembles the transfer
  (\<^verbatim>\<open>{ requestId: requestIdHex, params: swapParams }\<close>, with no conditions).
\<close>

definition ingestFulfilled :: "string list \<Rightarrow> string list" where
  "ingestFulfilled fulfilled = map toRequestId fulfilled"


section \<open>Notions used to state the properties\<close>

text \<open>
  The balance of a token in a \<open>Map\<close> object (0 when the token has no entry), the
  \<open>Map\<close> object a trade is charged to, the amount charged to one entry of a \<open>Map\<close>
  by a list of trades, and the amount emitted for a destination chain and token.
\<close>

definition balanceOf :: "Heap \<Rightarrow> Ref \<Rightarrow> string \<Rightarrow> nat" where
  "balanceOf h r t = (case h r t of None \<Rightarrow> 0 | Some b \<Rightarrow> b)"

definition tradeRef :: "States \<Rightarrow> Trade \<Rightarrow> Ref option" where
  "tradeRef sts trade = map_option tokenBalances (sts (normalizeChainId (destChainId trade)))"

definition debited :: "States \<Rightarrow> Ref \<Rightarrow> string \<Rightarrow> Trade list \<Rightarrow> nat" where
  "debited sts r t trades =
     sum_list (map swapAmount
       (filter (\<lambda>tr. tradeRef sts tr = Some r \<and> tokenOutAddr tr = t) trades))"

definition emittedFor :: "nat \<Rightarrow> string \<Rightarrow> Trade list \<Rightarrow> nat" where
  "emittedFor D t trades =
     sum_list (map swapAmount
       (filter (\<lambda>tr. normalizeChainId (destChainId tr) = D \<and> tokenOutAddr tr = t) trades))"

text \<open>
  What \<^verbatim>\<open>this.states.get(chainId).tokenBalances.get(token)\<close> reads from the persistent
  State Store.
\<close>

definition persistedBalance :: "'p Solver \<Rightarrow> Heap \<Rightarrow> nat \<Rightarrow> string \<Rightarrow> nat option" where
  "persistedBalance solver h chainId token =
     (case states solver chainId of
        None \<Rightarrow> None
      | Some st \<Rightarrow> h (tokenBalances st) token)"

text \<open>
  The destination token balance a transfer is checked against, and the checks of the
  simple evaluator other than the comparison of that balance with the amount.
\<close>

definition destBalance :: "Transfer \<Rightarrow> States \<Rightarrow> Heap \<Rightarrow> nat option" where
  "destBalance transfer sts h =
     (case sts (normalizeChainId (dstChainId (params transfer))) of
        None \<Rightarrow> None
      | Some destState \<Rightarrow>
          h (tokenBalances destState) (toLowerCase (tokenOut (params transfer))))"

definition passesOtherChecks :: "Transfer \<Rightarrow> States \<Rightarrow> Heap \<Rightarrow> NodeCache \<Rightarrow> nat \<Rightarrow> bool" where
  "passesOtherChecks transfer sts h inFlight now =
     (\<not> cache_has inFlight now (Transfer.requestId transfer)
      \<and> \<not> executed (params transfer)
      \<and> (case sts (normalizeChainId (dstChainId (params transfer))) of
            None \<Rightarrow> False
          | Some destState \<Rightarrow>
              \<not> isFulfilled destState (Transfer.requestId transfer)
              \<and> nativeBalance destState \<noteq> 0)
      \<and> destBalance transfer sts h \<noteq> None
      \<and> 1 \<le> solverFee (params transfer))"

section \<open>A scenario: two chains, one token\<close>

text \<open>
  Chain 31337 lists the open transfers; their destination is chain 31338. The solver
  holds the same token on both chains. \<open>exTransfer1\<close> asks for \<open>4 * 10^18\<close>,
  \<open>exTransfer2\<close> for \<open>3 * 10^18\<close>, \<open>exTransferZero\<close> for nothing, and
  \<open>exTransferBack\<close> goes the other way, to chain 31337.
\<close>

definition exToken :: string where
  "exToken = ''0x5FbDB2315678afecb367f032d93F642f64180aa3''"

definition exTokenLower :: string where
  "exTokenLower = ''0x5fbdb2315678afecb367f032d93f642f64180aa3''"

definition exParams :: "nat \<Rightarrow> nat \<Rightarrow> nat \<Rightarrow> nat \<Rightarrow> SwapRequestParameters" where
  "exParams dst amount fee n =
     \<lparr> SwapRequestParameters.srcChainId = 31337, dstChainId = dst,
       sender = ''0xf39Fd6e51aad88F6F4ce6aB8827279cffFb92266'',
       recipient = ''0x70997970C51812dc3A010C7d01b50e0d17dc79C8'',
       tokenIn = exToken, tokenOut = exToken, amountOut = amount,
       verificationFee = 0, solverFee = fee, SwapRequestParameters.nonce = n,
       executed = False, requestedAt = 0 \<rparr>"

definition exTransfer1 :: Transfer where
  "exTransfer1 =
     \<lparr> Transfer.requestId = ''0xab00000000000000000000000000000000000000000000000000000000000001'',
       params = exParams 31338 4000000000000000000 10000000000000000 1,
       conditions = None \<rparr>"

definition exTransfer2 :: Transfer where
  "exTransfer2 =
     \<lparr> Transfer.requestId = ''0xab00000000000000000000000000000000000000000000000000000000000002'',
       params = exParams 31338 3000000000000000000 10000000000000000 2,
       conditions = None \<rparr>"

definition exTransferZero :: Transfer where
  "exTransferZero =
     \<lparr> Transfer.requestId = ''0xab00000000000000000000000000000000000000000000000000000000000003'',
       params = exParams 31338 0 10000000000000000 3,
       conditions = None \<rparr>"

definition exTransferBack :: Transfer where
  "exTransferBack =
     \<lparr> Transfer.requestId = ''0xab00000000000000000000000000000000000000000000000000000000000004'',
       params = exParams 31337 1000000000000000000 10000000000000000 4,
       conditions = None \<rparr>"

definition exStates :: "Transfer list \<Rightarrow> States" where
  "exStates ts =
     [31337 \<mapsto> \<lparr> nativeBalance = 1000000000000000000, tokenBalances = 1,
                  transfers = ts, alreadyFulfilled = [] \<rparr>,
      31338 \<mapsto> \<lparr> nativeBalance = 1000000000000000000, tokenBalances = 2,
                  transfers = [], alreadyFulfilled = [] \<rparr>]"

definition exHeap :: "nat \<Rightarrow> Heap" where
  "exHeap b = (\<lambda>r. Map.empty)(1 := [exTokenLower \<mapsto> b], 2 := [exTokenLower \<mapsto> b])"

definition exSolver :: "Transfer list \<Rightarrow> unit Solver" where
  "exSolver ts = \<lparr> states = exStates ts, chains = Map.empty \<rparr>"

text \<open>
  A scoring for the scored evaluator: every condition holds, every risk is below the
  threshold, every score is 0, the fee floor is the default \<open>10^15\<close>.
\<close>

definition exScoring :: "nat Scoring" where
  "exScoring =
     \<lparr> evaluateCondition = (\<lambda>c transfer sts h. True),
       riskBelowMax = (\<lambda>trade transfer sts h. True),
       score = (\<lambda>trade transfer sts h. 0),
       minSolverFee = 1000000000000000 \<rparr>"

text \<open>
  The same transfer as \<open>exTransfer1\<close> with its request id in upper-case hexadecimal.
\<close>

definition exTransferUpper :: Transfer where
  "exTransferUpper =
     \<lparr> Transfer.requestId = ''0xAB00000000000000000000000000000000000000000000000000000000000001'',
       params = exParams 31338 4000000000000000000 10000000000000000 1,
       conditions = None \<rparr>"

text \<open>
  An executor for the two chains, the record the destination router has stored for a
  verified request (its nonce differs from the one the trade carries), and the answers
  of the network: the stored record and the outcome of the relay are given, the approval
  is confirmed, the timer does not fire, the execution takes 1.2 seconds.
\<close>

definition exRouter :: string where
  "exRouter = ''0xe7f1725E7734CE288F8367e1Bb143E90bb3F0512''"

definition exExecutor :: Executor where
  "exExecutor =
     \<lparr> ownAddress = ''0xf39Fd6e51aad88F6F4ce6aB8827279cffFb92266'',
       routers = [31337 \<mapsto> exRouter, 31338 \<mapsto> exRouter],
       tokens = [31337 \<mapsto> [exToken], 31338 \<mapsto> [exToken]] \<rparr>"

definition exStored :: SwapRequestParameters where
  "exStored = exParams 31338 4000000000000000000 10000000000000000 7"

definition exResponse :: "SwapRequestParameters option \<Rightarrow> TxOutcome \<Rightarrow> Response" where
  "exResponse stored relay =
     \<lparr> storedParams = stored, approveOutcome = TxConfirmed, relayOutcome = relay,
       timeoutFirst = False, relayIssuedBeforeTimeout = False, elapsed = 1200 \<rparr>"

text \<open>
  A transfer to chain 42161 for \<open>6 * 10^16\<close> with a fee of \<open>10^16\<close>.
\<close>

definition exTransferArb :: Transfer where
  "exTransferArb =
     \<lparr> Transfer.requestId = ''0xab00000000000000000000000000000000000000000000000000000000000005'',
       params = exParams 42161 60000000000000000 10000000000000000 5,
       conditions = None \<rparr>"

text \<open>The log of the executor without the network calls.\<close>

definition bookkeeping :: "Event list \<Rightarrow> Event list" where
  "bookkeeping evs =
     filter (\<lambda>e. case e of Network c \<Rightarrow> False | LateNetwork c \<Rightarrow> False | _ \<Rightarrow> True) evs"

text \<open>
  An empty in-flight cache as \<open>App.start\<close> builds it, and a full one: it holds the
  1000 request ids \<open>exKey 0\<close> to \<open>exKey 999\<close>, put in half a second apart from
  time 0 on, so that \<open>exKey i\<close> expires at time \<open>30000 + 500 * i\<close>. At time
  500000 most of them have expired, but no \<open>has\<close> has asked for them and the sweep
  has not run yet, so the cache still counts all of them.
\<close>

definition exEmptyCache :: InFlightCache where
  "exEmptyCache = \<lparr> entries = Map.empty, keys = 0, maxKeys = Some 1000 \<rparr>"

definition exKey :: "nat \<Rightarrow> string" where
  "exKey i =
     ''0x'' @ replicate 61 (CHR ''0'')
       @ [char_of (48 + i div 100), char_of (48 + i div 10 mod 10), char_of (48 + i mod 10)]"

definition exFullCache :: InFlightCache where
  "exFullCache =
     \<lparr> entries = map_of (map (\<lambda>i. (exKey i, 30000 + 500 * i)) [0..<1000]),
       keys = 1000, maxKeys = Some 1000 \<rparr>"

text \<open>
  The gas-price cache is private to the \<open>GasPriceEstimator\<close> and written by
  \<open>getGasPrice\<close> only: a cache it can hold maps a chain id to the price
  \<open>getGasPrice\<close> computes for it.
\<close>

definition gasCacheDefault :: "GasCache \<Rightarrow> bool" where
  "gasCacheDefault cache =
     (\<forall>chainId gasPrice timestamp.
        cache chainId = Some (gasPrice, timestamp) \<longrightarrow> gasPrice = freshGasPrice chainId)"

section \<open>Chain ids\<close>

lemma and_mask64: "(x::nat) AND 18446744073709551615 = x mod 2 ^ 64"
proof -
  have m: "(18446744073709551615::nat) = mask 64"
    by (simp add: mask_eq_exp_minus_1)
  have "x AND mask 64 = x mod 2 ^ 64"
    by (simp only: take_bit_eq_mod flip: take_bit_eq_mask)
  then show ?thesis
    unfolding m .
qed

lemma bitLength_2p53: "bitLength 9007199254740992 = 54"
  by (simp add: bitLength.simps)

lemma bigintToNumber_exact: "b \<le> 2 ^ 53 \<Longrightarrow> bigintToNumber b = b"
proof (cases "b < 2 ^ 53")
  case True
  then show ?thesis by (simp add: bigintToNumber_def)
next
  case False
  assume "b \<le> 2 ^ 53"
  with False have b: "b = 9007199254740992" by simp
  show ?thesis
    unfolding b bigintToNumber_def by (simp add: bitLength_2p53 Let_def)
qed

text \<open>
  Up to \<open>2^53\<close> the conversion to a double is exact, and \<open>normalizeChainId\<close> is the
  remainder modulo \<open>2^64\<close>.
\<close>

lemma normalizeChainId_exact:
  "x mod 2 ^ 64 \<le> 2 ^ 53 \<Longrightarrow> normalizeChainId x = x mod 2 ^ 64"
  by (simp add: normalizeChainId_def and_mask64 bigintToNumber_exact)

text \<open>
  C4: \<open>normalizeChainId\<close> at two chain ids whose low 64 bits exceed \<open>2^53\<close>. At
  \<open>2^53 + 1\<close> the conversion to a double rounds to \<open>2^53\<close>, which is not the
  remainder modulo \<open>2^64\<close>. At \<open>2^64 - 1\<close> it rounds up to \<open>2^64\<close>, and normalising
  that value again gives 0, so the function is not idempotent there.
\<close>

theorem normalizeChainId_rounds:
  "normalizeChainId 9007199254740993 = 9007199254740992
   \<and> (9007199254740993::nat) mod 2 ^ 64 = 9007199254740993
   \<and> normalizeChainId 18446744073709551615 = 18446744073709551616
   \<and> normalizeChainId (normalizeChainId 18446744073709551615) = 0"
  by (simp add: normalizeChainId_def and_mask64 bigintToNumber_def bitLength.simps Let_def)

section \<open>Fetching the state of an unknown chain\<close>

text \<open>
  C10: \<open>Solver.fetchState\<close> with a chain id that is not in the configured chains
  throws the "chain not found" error instead of returning a trade list, and leaves the
  solver (with its State Store) and the heap as they were.
\<close>

theorem fetchState_unknown_chain:
  "chains solver chainId = None \<Longrightarrow>
     fetchState fetch solver h chainId inFlight now = (Inl (ChainNotFound chainId), solver, h)"
  by (simp add: fetchState_def)

theorem fetchState_unknown_chain_witness:
  "chains \<lparr>states = Map.empty, chains = (Map.empty :: nat \<rightharpoonup> unit)\<rparr> 5 = None
   \<and> fetchState (\<lambda>p hp. Inl FetchFailed)
        \<lparr>states = Map.empty, chains = (Map.empty :: nat \<rightharpoonup> unit)\<rparr>
        (\<lambda>r. Map.empty) 5 Map.empty 0
      = (Inl (ChainNotFound 5), \<lparr>states = Map.empty, chains = Map.empty\<rparr>, (\<lambda>r. Map.empty))"
  using fetchState_unknown_chain
          [of "\<lparr>states = Map.empty, chains = (Map.empty :: nat \<rightharpoonup> unit)\<rparr>" 5
              "\<lambda>p hp. Inl FetchFailed" "\<lambda>r. Map.empty" Map.empty 0]
  by simp

section \<open>Evaluating the scenario\<close>

lemma normalize_ex [simp]: "normalizeChainId 31337 = 31337" "normalizeChainId 31338 = 31338"
  by (simp_all add: normalizeChainId_exact)

lemma lower_exToken [simp]: "toLowerCase exToken = exTokenLower"
  by (simp add: exToken_def exTokenLower_def toLowerCase_def lowerChar_def char_of_def bit_0)

lemma exStates_src:
  "exStates ts 31337 = Some \<lparr> nativeBalance = 1000000000000000000, tokenBalances = 1,
                  transfers = ts, alreadyFulfilled = [] \<rparr>"
  by (simp add: exStates_def)

lemma exStates_dst:
  "exStates ts 31338 = Some \<lparr> nativeBalance = 1000000000000000000, tokenBalances = 2,
                  transfers = [], alreadyFulfilled = [] \<rparr>"
  by (simp add: exStates_def)

lemma exHeap_at [simp]:
  "exHeap b (Suc 0) = [exTokenLower \<mapsto> b]" "exHeap b 2 = [exTokenLower \<mapsto> b]"
  by (simp_all add: exHeap_def)

lemma ex_params [simp]:
  "dstChainId (exParams dst amount fee n) = dst"
  "tokenOut (exParams dst amount fee n) = exToken"
  "executed (exParams dst amount fee n) = False"
  "amountOut (exParams dst amount fee n) = amount"
  "solverFee (exParams dst amount fee n) = fee"
  by (simp_all add: exParams_def)

lemma ex_transfers [simp]:
  "params exTransfer1 = exParams 31338 4000000000000000000 10000000000000000 1"
  "params exTransfer2 = exParams 31338 3000000000000000000 10000000000000000 2"
  "params exTransferZero = exParams 31338 0 10000000000000000 3"
  "params exTransferBack = exParams 31337 1000000000000000000 10000000000000000 4"
  "conditions exTransfer1 = None" "conditions exTransfer2 = None"
  "conditions exTransferZero = None" "conditions exTransferBack = None"
  by (simp_all add: exTransfer1_def exTransfer2_def exTransferZero_def exTransferBack_def)

lemma ex_trades [simp]:
  "destChainId (toTrade tr) = dstChainId (params tr)"
  "tokenOutAddr (toTrade tr) = toLowerCase (tokenOut (params tr))"
  "swapAmount (toTrade tr) = amountOut (params tr)"
  "Trade.requestId (toTrade tr) = Transfer.requestId tr"
  by (simp_all add: toTrade_def)

lemma ex_unfulfilled [simp]: "unfulfilledTransfers (exStates ts) us = us"
  by (induction us) (auto simp: unfulfilledTransfers_def exStates_def isFulfilled_def split: option.splits)

lemma solve_ex_dst:
  assumes "params tr = exParams 31338 amount fee n" "1 \<le> fee"
  shows "solve tr (exStates ts) h =
     (case h 2 exTokenLower of
        None \<Rightarrow> (None, h)
      | Some b \<Rightarrow>
          if b = 0 \<or> b < amount then (None, h)
          else (Some (toTrade tr), h(2 := (h 2)(exTokenLower \<mapsto> b - amount))))"
  using assms by (simp add: solve_def exStates_dst isFulfilled_def split: option.splits)

lemma solve_ex_src:
  assumes "params tr = exParams 31337 amount fee n" "1 \<le> fee"
  shows "solve tr (exStates ts) h =
     (case h (Suc 0) exTokenLower of
        None \<Rightarrow> (None, h)
      | Some b \<Rightarrow>
          if b = 0 \<or> b < amount then (None, h)
          else (Some (toTrade tr), h(Suc 0 := (h (Suc 0))(exTokenLower \<mapsto> b - amount))))"
  using assms by (simp add: solve_def exStates_src isFulfilled_def split: option.splits)

lemma solveV2_ex_dst:
  assumes "params tr = exParams 31338 amount fee n" "1000000000000000 \<le> fee"
  shows "solveV2 exScoring tr (exStates ts) h =
     (case h 2 exTokenLower of
        None \<Rightarrow> None
      | Some b \<Rightarrow> if b = 0 \<or> b < amount then None else Some (toTrade tr))"
  using assms by (simp add: solveV2_def exStates_dst isFulfilled_def exScoring_def split: option.splits)

lemmas solve_exs =
  solve_ex_dst [OF ex_transfers(1), simplified]
  solve_ex_dst [OF ex_transfers(2), simplified]
  solve_ex_dst [OF ex_transfers(3), simplified]
  solve_ex_src [OF ex_transfers(4), simplified]

lemmas solveV2_exs =
  solveV2_ex_dst [OF ex_transfers(1), simplified]
  solveV2_ex_dst [OF ex_transfers(2), simplified]
  solveV2_ex_dst [OF ex_transfers(3), simplified]

lemma cache_has_empty [simp]: "cache_has Map.empty now k = False"
  by (simp add: cache_has_def)

lemma exScoring_risk [simp]: "riskBelowMax exScoring trade transfer sts h"
  by (simp add: exScoring_def)

lemma exScoring_score [simp]: "score exScoring trade transfer sts h = 0"
  by (simp add: exScoring_def)

lemmas ex_eval =
  calculateTrades_def calculateTradesV2_def exSolver_def Let_def exStates_src exStates_dst
  solve_exs solveV2_exs sortByScore_def

lemma calculateTrades_ex12:
  "calculateTrades (exSolver [exTransfer1, exTransfer2]) (exHeap 5000000000000000000) 31337 Map.empty 0
     = Inr ([toTrade exTransfer1],
            (exHeap 5000000000000000000)(2 := [exTokenLower \<mapsto> 1000000000000000000]))"
  by (simp add: ex_eval)

lemma calculateTradesV2_ex12:
  "calculateTradesV2 exScoring (exSolver [exTransfer1, exTransfer2]) (exHeap 5000000000000000000) 31337 Map.empty 0
     = Inr ([toTrade exTransfer1],
            (exHeap 5000000000000000000)(2 := [exTokenLower \<mapsto> 1000000000000000000]))"
  by (simp add: ex_eval)

lemma persistedBalance_ex: "persistedBalance (exSolver ts) h 31338 token = h 2 token"
  by (simp add: persistedBalance_def exSolver_def exStates_dst)

lemma calculateTrades_ex12_rich:
  "calculateTrades (exSolver [exTransfer1, exTransfer2]) (exHeap 10000000000000000000) 31337 Map.empty 0
     = Inr ([toTrade exTransfer1, toTrade exTransfer2],
            (exHeap 10000000000000000000)(2 := [exTokenLower \<mapsto> 3000000000000000000]))"
  by (simp add: ex_eval)

lemma calculateTradesV2_ex12_rich:
  "calculateTradesV2 exScoring (exSolver [exTransfer1, exTransfer2]) (exHeap 10000000000000000000) 31337 Map.empty 0
     = Inr ([toTrade exTransfer1, toTrade exTransfer2],
            (exHeap 10000000000000000000)(2 := [exTokenLower \<mapsto> 3000000000000000000]))"
  by (simp add: ex_eval)

lemma ex_ids [simp]:
  "Transfer.requestId exTransfer1 = ''0xab00000000000000000000000000000000000000000000000000000000000001''"
  "Transfer.requestId exTransfer2 = ''0xab00000000000000000000000000000000000000000000000000000000000002''"
  by (simp_all add: exTransfer1_def exTransfer2_def)

section \<open>The debit and the State Store\<close>

text \<open>
  C1: in the scenario with \<open>exTransfer1\<close> and \<open>exTransfer2\<close> and a balance of
  \<open>5 * 10^18\<close>, the State Store reads \<open>5 * 10^18\<close> for the token on chain 31338
  before the tick, and \<open>10^18\<close> after \<open>calculateTrades\<close> has returned, for the
  simple evaluator and for the scored one: the debit is made in the \<open>Map\<close> object
  that the State Store and its copy share.
\<close>

theorem debit_reaches_state_store:
  "persistedBalance (exSolver [exTransfer1, exTransfer2]) (exHeap 5000000000000000000) 31338 exTokenLower
     = Some 5000000000000000000
   \<and> (case calculateTrades (exSolver [exTransfer1, exTransfer2]) (exHeap 5000000000000000000)
             31337 Map.empty 0 of
        Inl e \<Rightarrow> False
      | Inr (trades, h1) \<Rightarrow>
          persistedBalance (exSolver [exTransfer1, exTransfer2]) h1 31338 exTokenLower
            = Some 1000000000000000000)
   \<and> (case calculateTradesV2 exScoring (exSolver [exTransfer1, exTransfer2])
             (exHeap 5000000000000000000) 31337 Map.empty 0 of
        Inl e \<Rightarrow> False
      | Inr (trades, h1) \<Rightarrow>
          persistedBalance (exSolver [exTransfer1, exTransfer2]) h1 31338 exTokenLower
            = Some 1000000000000000000)"
  by (simp add: calculateTrades_ex12 calculateTradesV2_ex12 persistedBalance_ex)

section \<open>Inventory commit: what one tick can emit\<close>

lemma solve_None: "solve tr sts h = (None, h') \<Longrightarrow> h' = h"
  by (auto simp: solve_def Let_def split: option.splits if_splits)

lemma solve_Some:
  assumes "solve tr sts h = (Some trade, h')"
  shows "\<exists>d b. sts (normalizeChainId (dstChainId (params tr))) = Some d
           \<and> h (tokenBalances d) (toLowerCase (tokenOut (params tr))) = Some b
           \<and> amountOut (params tr) \<le> b \<and> b \<noteq> 0
           \<and> \<not> executed (params tr) \<and> \<not> isFulfilled d (Transfer.requestId tr)
           \<and> nativeBalance d \<noteq> 0 \<and> 1 \<le> solverFee (params tr)
           \<and> trade = toTrade tr
           \<and> h' = h(tokenBalances d := (h (tokenBalances d))
                      (toLowerCase (tokenOut (params tr)) \<mapsto> b - amountOut (params tr)))"
  using assms
  by (auto simp: solve_def Let_def split: option.splits if_splits)

lemma debited_Cons:
  "debited sts r t (tr # trs) =
     (if tradeRef sts tr = Some r \<and> tokenOutAddr tr = t then swapAmount tr else 0)
       + debited sts r t trs"
  by (simp add: debited_def)

lemma debited_Nil: "debited sts r t [] = 0"
  by (simp add: debited_def)

lemma solve_conserves:
  assumes "solve tr sts h = (Some trade, h')"
  shows "balanceOf h' r t + debited sts r t [trade] = balanceOf h r t"
proof -
  from solve_Some [OF assms] obtain d b where
    d: "sts (normalizeChainId (dstChainId (params tr))) = Some d"
    and b: "h (tokenBalances d) (toLowerCase (tokenOut (params tr))) = Some b"
    and le: "amountOut (params tr) \<le> b"
    and tr: "trade = toTrade tr"
    and h': "h' = h(tokenBalances d := (h (tokenBalances d))
                      (toLowerCase (tokenOut (params tr)) \<mapsto> b - amountOut (params tr)))"
    by blast
  have ref: "tradeRef sts trade = Some (tokenBalances d)"
    by (simp add: tradeRef_def tr toTrade_def d)
  have out: "tokenOutAddr trade = toLowerCase (tokenOut (params tr))"
    and amt: "swapAmount trade = amountOut (params tr)"
    by (simp_all add: tr toTrade_def)
  show ?thesis
    using b le by (auto simp: debited_Cons debited_Nil ref out amt h' balanceOf_def)
qed

lemma solveAll_conserves:
  "solveAll sts inFlight now ts h = (trades, h') \<Longrightarrow>
     balanceOf h' r t + debited sts r t trades = balanceOf h r t"
proof (induction ts arbitrary: h trades h')
  case Nil
  then show ?case by (simp add: debited_Nil)
next
  case (Cons tr ts)
  show ?case
  proof (cases "cache_has inFlight now (Transfer.requestId tr)")
    case True
    with Cons show ?thesis by simp
  next
    case False
    obtain res h1 where s: "solve tr sts h = (res, h1)" by (cases "solve tr sts h")
    show ?thesis
    proof (cases res)
      case None
      with s have "h1 = h" by (simp add: solve_None)
      with Cons False s None show ?thesis by simp
    next
      case (Some trade)
      obtain trs h2 where r: "solveAll sts inFlight now ts h1 = (trs, h2)"
        by (cases "solveAll sts inFlight now ts h1")
      with Cons.prems False s Some have eq: "trades = trade # trs" "h' = h2" by simp_all
      from Cons.IH [OF r] have "balanceOf h2 r t + debited sts r t trs = balanceOf h1 r t" .
      moreover from solve_conserves [of tr sts h trade h1 r t] s Some
      have "balanceOf h1 r t + debited sts r t [trade] = balanceOf h r t" by simp
      ultimately show ?thesis
        by (simp add: eq debited_Cons debited_Nil)
    qed
  qed
qed

lemma commitTrades_conserves:
  "commitTrades sts cands h = (trades, h') \<Longrightarrow>
     balanceOf h' r t + debited sts r t trades = balanceOf h r t"
proof (induction cands arbitrary: h trades h')
  case Nil
  then show ?case by (simp add: debited_Nil)
next
  case (Cons c cands)
  obtain trade transfer where c: "c = (trade, transfer)" by (cases c)
  show ?case
  proof (cases "sts (normalizeChainId (destChainId trade))")
    case None
    with Cons c show ?thesis by simp
  next
    case (Some d)
    let ?bal = "balanceOf h (tokenBalances d) (tokenOutAddr trade)"
    show ?thesis
    proof (cases "swapAmount trade \<le> ?bal")
      case False
      with Cons c Some show ?thesis by (simp add: balanceOf_def Let_def)
    next
      case True
      let ?h1 = "h(tokenBalances d := (h (tokenBalances d))
                     (tokenOutAddr trade \<mapsto> ?bal - swapAmount trade))"
      obtain trs h2 where r: "commitTrades sts cands ?h1 = (trs, h2)"
        by (cases "commitTrades sts cands ?h1")
      with Cons.prems c Some True have eq: "trades = trade # trs" "h' = h2"
        by (simp_all add: balanceOf_def Let_def)
      from Cons.IH [OF r] have "balanceOf h2 r t + debited sts r t trs = balanceOf ?h1 r t" .
      moreover have "balanceOf ?h1 r t + debited sts r t [trade] = balanceOf h r t"
        using True Some by (auto simp: debited_Cons debited_Nil tradeRef_def balanceOf_def)
      ultimately show ?thesis
        by (simp add: eq debited_Cons debited_Nil)
    qed
  qed
qed

lemma sum_filter_mono:
  fixes f :: "'a \<Rightarrow> nat"
  assumes "\<And>x. x \<in> set xs \<Longrightarrow> P x \<Longrightarrow> Q x"
  shows "sum_list (map f (filter P xs)) \<le> sum_list (map f (filter Q xs))"
  using assms by (induction xs) auto

lemma emittedFor_le_debited:
  "sts D = Some dst \<Longrightarrow> emittedFor D t trades \<le> debited sts (tokenBalances dst) t trades"
  unfolding emittedFor_def debited_def
  by (rule sum_filter_mono) (auto simp: tradeRef_def)

text \<open>
  C2: within one tick, for every destination chain \<open>D\<close> with a state and every
  token \<open>t\<close>, the sum of \<open>swapAmount\<close> over the emitted trades whose destination
  is \<open>D\<close> and whose \<open>tokenOutAddr\<close> is \<open>t\<close> is at most the balance of \<open>t\<close>
  in \<open>D\<close>'s state at the start of the tick (0 when \<open>t\<close> has no entry); this holds for
  the simple evaluator and for the commit pass of the scored evaluator.
\<close>

theorem emitted_within_balance:
  "states solver D = Some dst \<Longrightarrow>
     (calculateTrades solver h chainId inFlight now = Inr (trades, h1)
        \<longrightarrow> emittedFor D t trades \<le> balanceOf h (tokenBalances dst) t)
     \<and> (calculateTradesV2 sc solver h chainId inFlight now = Inr (trades2, h2)
        \<longrightarrow> emittedFor D t trades2 \<le> balanceOf h (tokenBalances dst) t)"
proof (intro conjI impI)
  assume D: "states solver D = Some dst"
  {
    assume "calculateTrades solver h chainId inFlight now = Inr (trades, h1)"
    then obtain ts where "solveAll (states solver) inFlight now ts h = (trades, h1)"
      by (auto simp: calculateTrades_def Let_def split: option.splits)
    from solveAll_conserves [OF this, of "tokenBalances dst" t]
    have "debited (states solver) (tokenBalances dst) t trades \<le> balanceOf h (tokenBalances dst) t"
      by simp
    with emittedFor_le_debited [of "states solver" D dst t trades] D
    show "emittedFor D t trades \<le> balanceOf h (tokenBalances dst) t" by simp
  }
  {
    assume "calculateTradesV2 sc solver h chainId inFlight now = Inr (trades2, h2)"
    then obtain cs where "commitTrades (states solver) cs h = (trades2, h2)"
      by (auto simp: calculateTradesV2_def Let_def split: option.splits)
    from commitTrades_conserves [OF this, of "tokenBalances dst" t]
    have "debited (states solver) (tokenBalances dst) t trades2 \<le> balanceOf h (tokenBalances dst) t"
      by simp
    with emittedFor_le_debited [of "states solver" D dst t trades2] D
    show "emittedFor D t trades2 \<le> balanceOf h (tokenBalances dst) t" by simp
  }
qed

theorem emitted_within_balance_witness:
  "states (exSolver [exTransfer1, exTransfer2]) 31338
     = Some \<lparr> nativeBalance = 1000000000000000000, tokenBalances = 2,
              transfers = [], alreadyFulfilled = [] \<rparr>
   \<and> calculateTrades (exSolver [exTransfer1, exTransfer2]) (exHeap 5000000000000000000) 31337 Map.empty 0
     = Inr ([toTrade exTransfer1],
            (exHeap 5000000000000000000)(2 := [exTokenLower \<mapsto> 1000000000000000000]))
   \<and> calculateTradesV2 exScoring (exSolver [exTransfer1, exTransfer2]) (exHeap 5000000000000000000) 31337 Map.empty 0
     = Inr ([toTrade exTransfer1],
            (exHeap 5000000000000000000)(2 := [exTokenLower \<mapsto> 1000000000000000000]))
   \<and> emittedFor 31338 exTokenLower [toTrade exTransfer1] = 4000000000000000000
   \<and> balanceOf (exHeap 5000000000000000000) 2 exTokenLower = 5000000000000000000
   \<and> emittedFor 31338 exTokenLower [toTrade exTransfer1]
        \<le> balanceOf (exHeap 5000000000000000000) 2 exTokenLower"
  using emitted_within_balance
    [where solver = "exSolver [exTransfer1, exTransfer2]" and D = 31338
       and dst = "\<lparr> nativeBalance = 1000000000000000000, tokenBalances = 2,
                     transfers = [], alreadyFulfilled = [] \<rparr>"
       and h = "exHeap 5000000000000000000" and chainId = 31337 and inFlight = Map.empty
       and now = 0 and trades = "[toTrade exTransfer1]"
       and ?h1.0 = "(exHeap 5000000000000000000)(2 := [exTokenLower \<mapsto> 1000000000000000000])"
       and sc = exScoring and ?trades2.0 = "[toTrade exTransfer1]"
       and ?h2.0 = "(exHeap 5000000000000000000)(2 := [exTokenLower \<mapsto> 1000000000000000000])"
       and t = exTokenLower]
  by (simp add: calculateTrades_ex12 calculateTradesV2_ex12 emittedFor_def balanceOf_def)
     (simp add: exSolver_def exStates_dst)

section \<open>Request ids of the emitted trades\<close>

lemma distinct_mset_subseteq:
  assumes "mset ys \<subseteq># mset xs" and "distinct xs"
  shows "distinct ys"
proof -
  have "count (mset ys) a \<le> 1" for a
  proof -
    have "count (mset ys) a \<le> count (mset xs) a"
      using assms(1) by (rule mset_subset_eq_count)
    also have "\<dots> \<le> 1"
      using assms(2) by (simp add: distinct_count_atmost_1)
    finally show ?thesis .
  qed
  then show ?thesis
    by (simp add: distinct_count_atmost_1) (metis count_mset_0_iff le_antisym One_nat_def Suc_leI neq0_conv)
qed

lemma subseteq_add_mset: "A \<subseteq># B \<Longrightarrow> A \<subseteq># add_mset x B"
  by (auto simp: subseteq_mset_def intro: le_SucI)

lemma solveAll_ids:
  "solveAll sts inFlight now ts h = (trades, h') \<Longrightarrow>
     mset (map Trade.requestId trades) \<subseteq># mset (map Transfer.requestId ts)"
proof (induction ts arbitrary: h trades h')
  case Nil
  then show ?case by simp
next
  case (Cons tr ts)
  show ?case
  proof (cases "cache_has inFlight now (Transfer.requestId tr)")
    case True
    with Cons.prems have "solveAll sts inFlight now ts h = (trades, h')" by simp
    from Cons.IH [OF this] show ?thesis
      by (simp add: subseteq_add_mset)
  next
    case False
    obtain res h1 where s: "solve tr sts h = (res, h1)" by (cases "solve tr sts h")
    show ?thesis
    proof (cases res)
      case None
      with Cons.prems False s have "solveAll sts inFlight now ts h1 = (trades, h')" by simp
      from Cons.IH [OF this] show ?thesis
        by (simp add: subseteq_add_mset)
    next
      case (Some trade)
      obtain trs h2 where r: "solveAll sts inFlight now ts h1 = (trs, h2)"
        by (cases "solveAll sts inFlight now ts h1")
      with Cons.prems False s Some have eq: "trades = trade # trs" by simp
      from solve_Some s Some have "trade = toTrade tr" by blast
      then have id: "Trade.requestId trade = Transfer.requestId tr" by (simp add: toTrade_def)
      from Cons.IH [OF r] show ?thesis by (simp add: eq id)
    qed
  qed
qed


lemma unfulfilled_ids:
  "mset (map Transfer.requestId (unfulfilledTransfers sts ts)) \<subseteq># mset (map Transfer.requestId ts)"
  unfolding unfulfilledTransfers_def
  by (induction ts) (auto simp: subseteq_add_mset)

lemma solveV2_Some: "solveV2 sc tr sts h = Some trade \<Longrightarrow> trade = toTrade tr"
  by (auto simp: solveV2_def split: option.splits if_splits)

lemma potentialTrades_ids:
  "mset (map (\<lambda>c. Trade.requestId (fst c)) (potentialTrades sc sts inFlight now h ts))
     \<subseteq># mset (map Transfer.requestId ts)"
proof (induction ts)
  case Nil
  then show ?case by simp
next
  case (Cons tr ts)
  have id: "Trade.requestId (toTrade tr) = Transfer.requestId tr"
    by (simp add: toTrade_def)
  from Cons show ?case
    by (auto simp: subseteq_add_mset id split: option.splits dest!: solveV2_Some)
qed

lemma mset_sortByScore: "mset (sortByScore f xs) = mset xs"
  by (simp add: sortByScore_def)

lemma commitTrades_sub:
  "commitTrades sts cands h = (trades, h') \<Longrightarrow> mset trades \<subseteq># mset (map fst cands)"
proof (induction cands arbitrary: h trades h')
  case Nil
  then show ?case by simp
next
  case (Cons c cands)
  obtain trade transfer where c: "c = (trade, transfer)" by (cases c)
  show ?case
  proof (cases "sts (normalizeChainId (destChainId trade))")
    case None
    with Cons.prems c have "commitTrades sts cands h = (trades, h')" by simp
    from Cons.IH [OF this] show ?thesis by (simp add: subseteq_add_mset)
  next
    case (Some d)
    let ?bal = "case h (tokenBalances d) (tokenOutAddr trade) of None \<Rightarrow> 0 | Some b \<Rightarrow> b"
    show ?thesis
    proof (cases "swapAmount trade \<le> ?bal")
      case False
      with Cons.prems c Some have "commitTrades sts cands h = (trades, h')"
        by (simp add: Let_def)
      from Cons.IH [OF this] show ?thesis by (simp add: subseteq_add_mset)
    next
      case True
      let ?h1 = "h(tokenBalances d := (h (tokenBalances d))
                     (tokenOutAddr trade \<mapsto> ?bal - swapAmount trade))"
      obtain trs h2 where r: "commitTrades sts cands ?h1 = (trs, h2)"
        by (cases "commitTrades sts cands ?h1")
      with Cons.prems c Some True have eq: "trades = trade # trs"
        by (simp add: Let_def)
      from Cons.IH [OF r] show ?thesis by (simp add: eq c)
    qed
  qed
qed

text \<open>
  C3 (amended): when the transfers of the tick's chain state carry pairwise different
  request ids, no two trades returned by the evaluator share a \<open>requestId\<close>; this
  holds for the simple evaluator and for the scored evaluator.
\<close>

theorem distinct_transfers_distinct_trades:
  "states solver chainId = Some chainState \<Longrightarrow>
   distinct (map Transfer.requestId (transfers chainState)) \<Longrightarrow>
     (calculateTrades solver h chainId inFlight now = Inr (trades, h1)
        \<longrightarrow> distinct (map Trade.requestId trades))
     \<and> (calculateTradesV2 sc solver h chainId inFlight now = Inr (trades2, h2)
        \<longrightarrow> distinct (map Trade.requestId trades2))"
proof (intro conjI impI)
  assume st: "states solver chainId = Some chainState"
    and dist: "distinct (map Transfer.requestId (transfers chainState))"
  let ?un = "unfulfilledTransfers (states solver) (transfers chainState)"
  {
    assume "calculateTrades solver h chainId inFlight now = Inr (trades, h1)"
    with st have "solveAll (states solver) inFlight now ?un h = (trades, h1)"
      by (simp add: calculateTrades_def Let_def)
    then have "mset (map Trade.requestId trades) \<subseteq># mset (map Transfer.requestId ?un)"
      by (rule solveAll_ids)
    also have "\<dots> \<subseteq># mset (map Transfer.requestId (transfers chainState))"
      by (rule unfulfilled_ids)
    finally show "distinct (map Trade.requestId trades)"
      using dist by (rule distinct_mset_subseteq)
  }
  {
    let ?pot = "potentialTrades sc (states solver) inFlight now h ?un"
    let ?srt = "sortByScore (\<lambda>(trade, transfer). score sc trade transfer (states solver) h) ?pot"
    assume "calculateTradesV2 sc solver h chainId inFlight now = Inr (trades2, h2)"
    with st have "commitTrades (states solver) ?srt h = (trades2, h2)"
      by (simp add: calculateTradesV2_def Let_def)
    then have "mset trades2 \<subseteq># mset (map fst ?srt)"
      by (rule commitTrades_sub)
    then have "image_mset Trade.requestId (mset trades2)
                 \<subseteq># image_mset Trade.requestId (mset (map fst ?srt))"
      by (rule image_mset_subseteq_mono)
    also have "image_mset Trade.requestId (mset (map fst ?srt))
                 = mset (map (\<lambda>c. Trade.requestId (fst c)) ?pot)"
      by (simp add: mset_sortByScore multiset.map_comp comp_def)
    also have "\<dots> \<subseteq># mset (map Transfer.requestId ?un)"
      by (rule potentialTrades_ids)
    also have "\<dots> \<subseteq># mset (map Transfer.requestId (transfers chainState))"
      by (rule unfulfilled_ids)
    finally have "mset (map Trade.requestId trades2)
                    \<subseteq># mset (map Transfer.requestId (transfers chainState))"
      by simp
    then show "distinct (map Trade.requestId trades2)"
      using dist by (rule distinct_mset_subseteq)
  }
qed

theorem distinct_transfers_distinct_trades_witness:
  "states (exSolver [exTransfer1, exTransfer2]) 31337
     = Some \<lparr> nativeBalance = 1000000000000000000, tokenBalances = 1,
              transfers = [exTransfer1, exTransfer2], alreadyFulfilled = [] \<rparr>
   \<and> distinct (map Transfer.requestId [exTransfer1, exTransfer2])
   \<and> calculateTrades (exSolver [exTransfer1, exTransfer2]) (exHeap 10000000000000000000) 31337 Map.empty 0
     = Inr ([toTrade exTransfer1, toTrade exTransfer2],
            (exHeap 10000000000000000000)(2 := [exTokenLower \<mapsto> 3000000000000000000]))
   \<and> calculateTradesV2 exScoring (exSolver [exTransfer1, exTransfer2]) (exHeap 10000000000000000000) 31337 Map.empty 0
     = Inr ([toTrade exTransfer1, toTrade exTransfer2],
            (exHeap 10000000000000000000)(2 := [exTokenLower \<mapsto> 3000000000000000000]))
   \<and> distinct (map Trade.requestId [toTrade exTransfer1, toTrade exTransfer2])"
  using distinct_transfers_distinct_trades
    [where solver = "exSolver [exTransfer1, exTransfer2]" and chainId = 31337
       and chainState = "\<lparr> nativeBalance = 1000000000000000000, tokenBalances = 1,
              transfers = [exTransfer1, exTransfer2], alreadyFulfilled = [] \<rparr>"
       and h = "exHeap 10000000000000000000" and inFlight = Map.empty
       and now = 0 and trades = "[toTrade exTransfer1, toTrade exTransfer2]"
       and ?h1.0 = "(exHeap 10000000000000000000)(2 := [exTokenLower \<mapsto> 3000000000000000000])"
       and sc = exScoring and ?trades2.0 = "[toTrade exTransfer1, toTrade exTransfer2]"
       and ?h2.0 = "(exHeap 10000000000000000000)(2 := [exTokenLower \<mapsto> 3000000000000000000])"]
  by (simp add: calculateTrades_ex12_rich calculateTradesV2_ex12_rich)
     (simp add: exSolver_def exStates_src)

text \<open>
  With the same transfer listed twice and a balance that covers both, either evaluator
  returns two trades with the same request id.
\<close>

theorem duplicate_transfers_counterexample:
  "calculateTrades (exSolver [exTransfer1, exTransfer1]) (exHeap 10000000000000000000) 31337 Map.empty 0
     = Inr ([toTrade exTransfer1, toTrade exTransfer1],
            (exHeap 10000000000000000000)(2 := [exTokenLower \<mapsto> 2000000000000000000]))
   \<and> calculateTradesV2 exScoring (exSolver [exTransfer1, exTransfer1]) (exHeap 10000000000000000000) 31337 Map.empty 0
     = Inr ([toTrade exTransfer1, toTrade exTransfer1],
            (exHeap 10000000000000000000)(2 := [exTokenLower \<mapsto> 2000000000000000000]))
   \<and> \<not> distinct (map Trade.requestId [toTrade exTransfer1, toTrade exTransfer1])"
  by (simp add: ex_eval)

section \<open>A balance that exactly covers the amount\<close>

lemma solveAll_zero_stays:
  "h r t = Some 0 \<Longrightarrow> solveAll sts inFlight now ts h = (trades, h') \<Longrightarrow>
     h' r t = Some 0 \<and> (\<forall>tr \<in> set trades. \<not> (tradeRef sts tr = Some r \<and> tokenOutAddr tr = t))"
proof (induction ts arbitrary: h trades h')
  case Nil
  then show ?case by simp
next
  case (Cons x ts)
  show ?case
  proof (cases "cache_has inFlight now (Transfer.requestId x)")
    case True
    with Cons.prems have "solveAll sts inFlight now ts h = (trades, h')" by simp
    from Cons.IH [OF Cons.prems(1) this] show ?thesis .
  next
    case False
    obtain res h1 where s: "solve x sts h = (res, h1)" by (cases "solve x sts h")
    show ?thesis
    proof (cases res)
      case None
      with s have "h1 = h" by (simp add: solve_None)
      with Cons.prems False s None have "solveAll sts inFlight now ts h = (trades, h')" by simp
      from Cons.IH [OF Cons.prems(1) this] show ?thesis .
    next
      case (Some trade)
      from solve_Some s Some obtain d b where
        d: "sts (normalizeChainId (dstChainId (params x))) = Some d"
        and b: "h (tokenBalances d) (toLowerCase (tokenOut (params x))) = Some b"
        and nz: "b \<noteq> 0"
        and tr: "trade = toTrade x"
        and h1: "h1 = h(tokenBalances d := (h (tokenBalances d))
                      (toLowerCase (tokenOut (params x)) \<mapsto> b - amountOut (params x)))"
        by blast
      from b nz Cons.prems(1)
      have other: "\<not> (tokenBalances d = r \<and> toLowerCase (tokenOut (params x)) = t)" by auto
      then have z: "h1 r t = Some 0" using Cons.prems(1) by (auto simp: h1)
      have notrt: "\<not> (tradeRef sts trade = Some r \<and> tokenOutAddr trade = t)"
        using other by (simp add: tradeRef_def tr toTrade_def d)
      obtain trs h2 where r: "solveAll sts inFlight now ts h1 = (trs, h2)"
        by (cases "solveAll sts inFlight now ts h1")
      with Cons.prems False s Some have eq: "trades = trade # trs" "h' = h2" by simp_all
      from Cons.IH [OF z r] notrt show ?thesis by (simp add: eq)
    qed
  qed
qed

text \<open>
  C6 (amended): a transfer that passes all other checks of the simple evaluator, whose
  destination token balance equals \<open>amountOut\<close>, and whose \<open>amountOut\<close> is
  positive, is emitted as a trade; the debit leaves the balance at 0; the balance is
  still 0 at the end of the tick, and no later trade of the tick has the same
  destination chain and token: every later candidate that needs that token there is
  skipped.
\<close>

theorem exact_balance_trade:
  assumes pass: "passesOtherChecks transfer sts h inFlight now"
    and bal: "destBalance transfer sts h = Some (amountOut (params transfer))"
    and pos: "0 < amountOut (params transfer)"
    and run: "solveAll sts inFlight now (transfer # rest) h = (trades, h')"
  shows "\<exists>later. trades = toTrade transfer # later
           \<and> destBalance transfer sts (snd (solve transfer sts h)) = Some 0
           \<and> destBalance transfer sts h' = Some 0
           \<and> (\<forall>tr \<in> set later.
                 \<not> (normalizeChainId (destChainId tr) = normalizeChainId (dstChainId (params transfer))
                    \<and> tokenOutAddr tr = toLowerCase (tokenOut (params transfer))))"
proof -
  let ?tok = "toLowerCase (tokenOut (params transfer))"
  from pass obtain d where d: "sts (normalizeChainId (dstChainId (params transfer))) = Some d"
    by (auto simp: passesOtherChecks_def split: option.splits)
  from bal d have b: "h (tokenBalances d) ?tok = Some (amountOut (params transfer))"
    by (simp add: destBalance_def)
  let ?h1 = "h(tokenBalances d := (h (tokenBalances d))(?tok \<mapsto> 0))"
  have s: "solve transfer sts h = (Some (toTrade transfer), ?h1)"
    using pass d b pos by (simp add: solve_def passesOtherChecks_def)
  have z: "?h1 (tokenBalances d) ?tok = Some 0" by simp
  obtain later h2 where r: "solveAll sts inFlight now rest ?h1 = (later, h2)"
    by (cases "solveAll sts inFlight now rest ?h1")
  from pass have nf: "\<not> cache_has inFlight now (Transfer.requestId transfer)"
    by (simp add: passesOtherChecks_def)
  from run nf s r have eq: "trades = toTrade transfer # later" "h' = h2" by simp_all
  from solveAll_zero_stays [OF z r]
  have fin: "h2 (tokenBalances d) ?tok = Some 0"
    and none: "\<forall>tr \<in> set later. \<not> (tradeRef sts tr = Some (tokenBalances d) \<and> tokenOutAddr tr = ?tok)"
    by simp_all
  have "\<forall>tr \<in> set later.
          \<not> (normalizeChainId (destChainId tr) = normalizeChainId (dstChainId (params transfer))
             \<and> tokenOutAddr tr = ?tok)"
    using none d by (auto simp: tradeRef_def)
  with eq fin s d show ?thesis
    by (simp add: destBalance_def)
qed

theorem exact_balance_trade_witness:
  "passesOtherChecks exTransfer1 (exStates []) (exHeap 4000000000000000000) Map.empty 0
   \<and> destBalance exTransfer1 (exStates []) (exHeap 4000000000000000000)
       = Some (amountOut (params exTransfer1))
   \<and> 0 < amountOut (params exTransfer1)
   \<and> solveAll (exStates []) Map.empty 0 [exTransfer1, exTransfer2, exTransferBack]
         (exHeap 4000000000000000000)
       = ([toTrade exTransfer1, toTrade exTransferBack],
          (exHeap 4000000000000000000)
            (2 := [exTokenLower \<mapsto> 0], Suc 0 := [exTokenLower \<mapsto> 3000000000000000000]))
   \<and> destBalance exTransfer1 (exStates [])
         (snd (solve exTransfer1 (exStates []) (exHeap 4000000000000000000))) = Some 0
   \<and> destBalance exTransfer1 (exStates [])
         ((exHeap 4000000000000000000)
            (2 := [exTokenLower \<mapsto> 0], Suc 0 := [exTokenLower \<mapsto> 3000000000000000000]))
       = Some 0
   \<and> normalizeChainId (destChainId (toTrade exTransferBack))
       \<noteq> normalizeChainId (dstChainId (params exTransfer1))"
  using exact_balance_trade
    [where transfer = exTransfer1 and sts = "exStates []" and h = "exHeap 4000000000000000000"
       and inFlight = Map.empty and now = 0 and rest = "[exTransfer2, exTransferBack]"
       and trades = "[toTrade exTransfer1, toTrade exTransferBack]"
       and h' = "(exHeap 4000000000000000000)
            (2 := [exTokenLower \<mapsto> 0], Suc 0 := [exTokenLower \<mapsto> 3000000000000000000])"]
  by (simp add: ex_eval passesOtherChecks_def destBalance_def isFulfilled_def)

text \<open>
  A transfer for the amount 0 against a balance of 0 passes every other check and its
  balance equals its amount, yet \<open>solve\<close> skips it: a balance of 0 is always "too
  low".
\<close>

theorem zero_amount_counterexample:
  "passesOtherChecks exTransferZero (exStates [exTransferZero]) (exHeap 0) Map.empty 0
   \<and> destBalance exTransferZero (exStates [exTransferZero]) (exHeap 0)
       = Some (amountOut (params exTransferZero))
   \<and> calculateTrades (exSolver [exTransferZero]) (exHeap 0) 31337 Map.empty 0
       = Inr ([], exHeap 0)"
  by (simp add: ex_eval passesOtherChecks_def destBalance_def isFulfilled_def)

section \<open>Lower case\<close>

lemma lowerChar_idem: "lowerChar (lowerChar c) = lowerChar c"
proof -
  have "of_char (char_of (of_char c + 32 :: nat)) = (of_char c + 32 :: nat)"
    if "(of_char c :: nat) \<le> 90"
    using that by (simp add: of_char_of)
  then show ?thesis
    by (auto simp: lowerChar_def Let_def)
qed

lemma toLowerCase_idem [simp]: "toLowerCase (toLowerCase s) = toLowerCase s"
  by (simp add: toLowerCase_def lowerChar_idem)


section \<open>Evaluating the executor\<close>

lemma exUpper [simp]:
  "params exTransferUpper = exParams 31338 4000000000000000000 10000000000000000 1"
  "conditions exTransferUpper = None"
  "Transfer.requestId exTransferUpper
     = ''0xAB00000000000000000000000000000000000000000000000000000000000001''"
  by (simp_all add: exTransferUpper_def)

lemma exExecutor_dst [simp]:
  "routers exExecutor 31338 = Some exRouter"
  "tokens exExecutor 31338 = Some [exToken]"
  by (simp_all add: exExecutor_def)

lemma exResponse_fields [simp]:
  "storedParams (exResponse stored relay) = stored"
  "approveOutcome (exResponse stored relay) = TxConfirmed"
  "relayOutcome (exResponse stored relay) = relay"
  "timeoutFirst (exResponse stored relay) = False"
  "relayIssuedBeforeTimeout (exResponse stored relay) = False"
  "elapsed (exResponse stored relay) = 1200"
  by (simp_all add: exResponse_def)

lemma lower_exTokenLower [simp]: "toLowerCase exTokenLower = exTokenLower"
  using toLowerCase_idem [of exToken] by simp

lemma reconcile_tokenOut_ex:
  "params tr = exParams 31338 amount fee n \<Longrightarrow>
     actualTokenOut (reconcile (toTrade tr) None) = exTokenLower"
  "params tr = exParams 31338 amount fee n \<Longrightarrow>
     actualTokenOut (reconcile (toTrade tr) (Some exStored)) = exTokenLower"
  "params tr = exParams 31338 amount fee n \<Longrightarrow>
     actualAmountOut (reconcile (toTrade tr) None) = amount"
  by (simp_all add: reconcile_def Let_def exStored_def)

lemma executeTrade_ex:
  assumes "params tr = exParams 31338 amount fee n"
  shows "executeTrade exExecutor (toTrade tr) (exResponse None relay) =
     (if relay = TxConfirmed then Inr () else Inl (relayError relay),
      [GetSwapRequestParameters exRouter (toRequestId (Transfer.requestId tr)),
       Approve exToken exRouter amount,
       RelayTokens exRouter
         (relayArgs exExecutor (toRequestId (Transfer.requestId tr))
            (reconcile (toTrade tr) None))])"
  using assms
  by (simp add: executeTrade_def executeTradeInternal_def Let_def reconcile_tokenOut_ex)

lemmas executeTrade_exs =
  executeTrade_ex [OF ex_transfers(1)]
  executeTrade_ex [OF ex_transfers(2)]
  executeTrade_ex [OF exUpper(1)]

lemma bookkeeping_simps [simp]:
  "bookkeeping [] = []"
  "bookkeeping (Network c # evs) = bookkeeping evs"
  "bookkeeping (LateNetwork c # evs) = bookkeeping evs"
  "bookkeeping (Skipped r # evs) = Skipped r # bookkeeping evs"
  "bookkeeping (InFlightSet r n # evs) = InFlightSet r n # bookkeeping evs"
  "bookkeeping (InFlightDel r # evs) = InFlightDel r # bookkeeping evs"
  "bookkeeping (Traded r # evs) = Traded r # bookkeeping evs"
  by (simp_all add: bookkeeping_def)

lemma executeTrade_stored:
  "executeTrade exExecutor (toTrade exTransfer1) (exResponse (Some exStored) TxConfirmed) =
     (Inr (),
      [GetSwapRequestParameters exRouter (toRequestId (Transfer.requestId exTransfer1)),
       Approve exToken exRouter 4000000000000000000,
       RelayTokens exRouter
         (relayArgs exExecutor (toRequestId (Transfer.requestId exTransfer1))
            (reconcile (toTrade exTransfer1) (Some exStored)))])"
  by (simp add: executeTrade_def executeTradeInternal_def Let_def
        reconcile_tokenOut_ex [OF ex_transfers(1)])
     (simp add: reconcile_def exStored_def exParams_def)

lemma exStored_verified:
  "SwapRequestParameters.srcChainId exStored \<noteq> 0"
  "toLowerCase (sender exStored) \<noteq> zeroAddress"
  "SwapRequestParameters.nonce exStored = 7"
  "toLowerCase (sender exStored) = ''0xf39fd6e51aad88f6f4ce6ab8827279cfffb92266''"
  by (simp_all add: exStored_def exParams_def zeroAddress_def toLowerCase_def lowerChar_def
        char_of_def bit_0)

lemma exTrade1_fields:
  "Trade.nonce (toTrade exTransfer1) = 1"
  "tokenOutAddr (toTrade exTransfer1) = exTokenLower"
  by (simp_all add: toTrade_def exParams_def)



section \<open>Letter case of request ids\<close>






text \<open>
  The cache itself compares its keys as they are, and neither the evaluator nor the
  executor changes the letter case of an id. So an id that is not in the form
  \<open>toRequestId\<close> gives, such as the upper-case id of \<open>exTransferUpper\<close>, is not
  found under the key of its lower-case variant: the evaluator emits a trade for it
  and the executor runs that trade. It is \<open>Network.fetchState\<close> that keeps such an
  id from reaching them.
\<close>

lemma cache_keys_compared_as_they_are:
  "toLowerCase (Transfer.requestId exTransferUpper) = toLowerCase (Transfer.requestId exTransfer1)
   \<and> calculateTrades (exSolver [exTransfer1]) (exHeap 5000000000000000000) 31337
        (cache_set Map.empty 0 (Transfer.requestId exTransfer1) 30) 1000
       = Inr ([], exHeap 5000000000000000000)
   \<and> calculateTrades (exSolver [exTransferUpper]) (exHeap 5000000000000000000) 31337
        (cache_set Map.empty 0 (Transfer.requestId exTransfer1) 30) 1000
       = Inr ([toTrade exTransferUpper],
              (exHeap 5000000000000000000)(2 := [exTokenLower \<mapsto> 1000000000000000000]))
   \<and> bookkeeping (snd (snd (snd (execute exExecutor
          [(toTrade exTransfer1, exResponse None TxConfirmed)]
          \<lparr> entries = cache_set Map.empty 0 (Transfer.requestId exTransfer1) 30,
            keys = 1, maxKeys = Some 1000 \<rparr> 1000))))
       = [Skipped (Transfer.requestId exTransfer1)]
   \<and> bookkeeping (snd (snd (snd (execute exExecutor
          [(toTrade exTransferUpper, exResponse None TxConfirmed)]
          \<lparr> entries = cache_set Map.empty 0 (Transfer.requestId exTransfer1) 30,
            keys = 1, maxKeys = Some 1000 \<rparr> 1000))))
       = [InFlightSet (Transfer.requestId exTransferUpper) 30,
          Traded (Transfer.requestId exTransferUpper)]"
  by (simp add: calculateTrades_def exSolver_def exStates_src Let_def cache_has_def cache_set_def
        solve_ex_dst [OF ex_transfers(1)] solve_ex_dst [OF exUpper(1)] executeTrade_exs
        inFlight_has_def inFlight_set_def cacheFull_def)
     (simp add: toLowerCase_def lowerChar_def char_of_def bit_0)

section \<open>Relay parameters\<close>

lemma relay_call_of_executeTrade:
  assumes "RelayTokens router args \<in> set (snd (executeTrade ex trade resp))"
  shows "args = relayArgs ex (toRequestId (Trade.requestId trade))
                  (reconcile trade (storedParams resp))"
  using assms
  by (auto simp: executeTrade_def executeTradeInternal_def Let_def
           split: option.splits if_splits prod.splits)

text \<open>
  C7: for every \<open>relayTokens\<close> call the executor issues for a trade: when the
  destination router returned a stored record with non-zero \<open>srcChainId\<close> and
  non-zero \<open>sender\<close>, the call carries the stored \<open>tokenIn\<close>, \<open>tokenOut\<close>,
  \<open>sender\<close>, \<open>recipient\<close>, \<open>amountOut\<close>, \<open>srcChainId\<close> and \<open>nonce\<close>;
  otherwise (zero record, or failed lookup) it carries the values of the trade; and
  every address argument is in lower case (the addresses of either source are
  lower-cased on the way).
\<close>

theorem relay_uses_reconciled_parameters:
  assumes "RelayTokens router args \<in> set (snd (executeTrade ex trade resp))"
  shows "(\<forall>p. storedParams resp = Some p \<and> SwapRequestParameters.srcChainId p \<noteq> 0
              \<and> toLowerCase (sender p) \<noteq> zeroAddress \<longrightarrow>
            relayTokenIn args = toLowerCase (tokenIn p)
            \<and> relayTokenOut args = toLowerCase (tokenOut p)
            \<and> relaySender args = toLowerCase (sender p)
            \<and> relayRecipient args = toLowerCase (recipient p)
            \<and> relayAmountOut args = amountOut p
            \<and> relaySrcChainId args = SwapRequestParameters.srcChainId p
            \<and> relayNonce args = SwapRequestParameters.nonce p)
       \<and> ((storedParams resp = None
            \<or> (\<exists>p. storedParams resp = Some p
                   \<and> (SwapRequestParameters.srcChainId p = 0
                       \<or> toLowerCase (sender p) = zeroAddress))) \<longrightarrow>
            relayTokenIn args = toLowerCase (tokenInAddr trade)
            \<and> relayTokenOut args = toLowerCase (tokenOutAddr trade)
            \<and> relaySender args = toLowerCase (senderAddr trade)
            \<and> relayRecipient args = toLowerCase (recipientAddr trade)
            \<and> relayAmountOut args = swapAmount trade
            \<and> relaySrcChainId args = Trade.srcChainId trade
            \<and> relayNonce args = Trade.nonce trade)
       \<and> toLowerCase (relaySolver args) = relaySolver args
       \<and> toLowerCase (relaySender args) = relaySender args
       \<and> toLowerCase (relayRecipient args) = relayRecipient args
       \<and> toLowerCase (relayTokenIn args) = relayTokenIn args
       \<and> toLowerCase (relayTokenOut args) = relayTokenOut args"
proof -
  have a: "args = relayArgs ex (toRequestId (Trade.requestId trade))
                    (reconcile trade (storedParams resp))"
    using assms by (rule relay_call_of_executeTrade)
  show ?thesis
    unfolding a by (auto simp: relayArgs_def reconcile_def Let_def split: option.splits)
qed

theorem relay_uses_reconciled_parameters_witness:
  "RelayTokens exRouter
       (relayArgs exExecutor (toRequestId (Transfer.requestId exTransfer1))
          (reconcile (toTrade exTransfer1) (Some exStored)))
     \<in> set (snd (executeTrade exExecutor (toTrade exTransfer1)
                   (exResponse (Some exStored) TxConfirmed)))
   \<and> SwapRequestParameters.srcChainId exStored \<noteq> 0
   \<and> toLowerCase (sender exStored) \<noteq> zeroAddress
   \<and> relayNonce (relayArgs exExecutor (toRequestId (Transfer.requestId exTransfer1))
          (reconcile (toTrade exTransfer1) (Some exStored))) = 7
   \<and> relaySender (relayArgs exExecutor (toRequestId (Transfer.requestId exTransfer1))
          (reconcile (toTrade exTransfer1) (Some exStored)))
       = ''0xf39fd6e51aad88f6f4ce6ab8827279cfffb92266''
   \<and> RelayTokens exRouter
       (relayArgs exExecutor (toRequestId (Transfer.requestId exTransfer1))
          (reconcile (toTrade exTransfer1) None))
     \<in> set (snd (executeTrade exExecutor (toTrade exTransfer1)
                   (exResponse None TxConfirmed)))
   \<and> relayNonce (relayArgs exExecutor (toRequestId (Transfer.requestId exTransfer1))
          (reconcile (toTrade exTransfer1) None)) = 1
   \<and> relayTokenOut (relayArgs exExecutor (toRequestId (Transfer.requestId exTransfer1))
          (reconcile (toTrade exTransfer1) None)) = exTokenLower"
proof -
  let ?A = "relayArgs exExecutor (toRequestId (Transfer.requestId exTransfer1))
              (reconcile (toTrade exTransfer1) (Some exStored))"
  let ?B = "relayArgs exExecutor (toRequestId (Transfer.requestId exTransfer1))
              (reconcile (toTrade exTransfer1) None)"
  have memA: "RelayTokens exRouter ?A
     \<in> set (snd (executeTrade exExecutor (toTrade exTransfer1)
                   (exResponse (Some exStored) TxConfirmed)))"
    by (simp only: executeTrade_stored snd_conv list.set insert_iff simp_thms)
  have memB: "RelayTokens exRouter ?B
     \<in> set (snd (executeTrade exExecutor (toTrade exTransfer1)
                   (exResponse None TxConfirmed)))"
    by (simp only: executeTrade_exs snd_conv list.set insert_iff simp_thms ex_ids)
  have sA: "storedParams (exResponse (Some exStored) TxConfirmed) = Some exStored"
    and sB: "storedParams (exResponse None TxConfirmed) = None"
    by simp_all
  from relay_uses_reconciled_parameters [OF memA] sA exStored_verified(1,2)
  have "relayNonce ?A = SwapRequestParameters.nonce exStored
        \<and> relaySender ?A = toLowerCase (sender exStored)"
    by blast
  then have A: "relayNonce ?A = 7"
    "relaySender ?A = ''0xf39fd6e51aad88f6f4ce6ab8827279cfffb92266''"
    by (simp_all only: exStored_verified)
  from relay_uses_reconciled_parameters [OF memB] sB
  have "relayNonce ?B = Trade.nonce (toTrade exTransfer1)
        \<and> relayTokenOut ?B = toLowerCase (tokenOutAddr (toTrade exTransfer1))"
    by blast
  then have B: "relayNonce ?B = 1" "relayTokenOut ?B = exTokenLower"
    by (simp_all only: exTrade1_fields lower_exTokenLower)
  from memA memB A B exStored_verified(1,2) show ?thesis
    by blast
qed

section \<open>The executor loop\<close>

lemma execute_append:
  "execute ex (xs @ ys) inFlight now =
     (case execute ex xs inFlight now of
        (Inl e, c1, t1, log1) \<Rightarrow> (Inl e, c1, t1, log1)
      | (Inr u, c1, t1, log1) \<Rightarrow>
          (case execute ex ys c1 t1 of
             (r, c2, t2, log2) \<Rightarrow> (r, c2, t2, log1 @ log2)))"
proof (induction xs arbitrary: inFlight now)
  case Nil
  then show ?case by (simp split: prod.splits)
next
  case (Cons x xs)
  obtain trade resp where x: "x = (trade, resp)" by (cases x)
  show ?case
    unfolding x
    by (simp add: Cons.IH split: prod.splits sum.splits)
qed

lemma executeTrade_success_no_timeout:
  "executeTrade ex trade resp = (Inr u, calls) \<Longrightarrow> \<not> timeoutFirst resp"
  by (auto simp: executeTrade_def Let_def split: option.splits prod.splits if_splits)

text \<open>
  C8 (amended): take a trade anywhere in the executor's list that is not in flight
  when its turn comes. While the cache holds fewer keys than its cap, its id is put
  into the cache with a TTL of 30 seconds before any network call for it; when its
  execution fails the entry is deleted, when it succeeds the entry stays; in both cases
  the executor goes on with the rest of the list. What a timed-out trade still calls
  after the timeout comes after the deletion. When the cache is full, \<open>set\<close>
  throws: nothing is stored, no call is made for the trade, and \<open>execute\<close> throws
  without going on to the rest of the list.
\<close>

theorem in_flight_discipline:
  assumes "execute ex pre inFlight now = (Inr (), c1, t1, log1)"
    and "inFlight_has c1 t1 (Trade.requestId trade) = (False, c2)"
    and "executeTrade ex trade resp = (result, calls)"
  shows "(\<not> cacheFull c2 \<longrightarrow>
           (\<exists>cs. inFlight_set c2 t1 (Trade.requestId trade) 30 = Inr cs
              \<and> entries cs (Trade.requestId trade) = Some (t1 + 30000)
              \<and> entries (inFlight_del cs (Trade.requestId trade)) (Trade.requestId trade) = None
              \<and> (case execute ex post
                         (if isl result then inFlight_del cs (Trade.requestId trade) else cs)
                         (t1 + elapsed resp) of
                    (r3, c3, t3, log3) \<Rightarrow>
                      execute ex (pre @ (trade, resp) # post) inFlight now =
                        (r3, c3, t3,
                         log1 @ InFlightSet (Trade.requestId trade) 30
                           # (if isl result
                              then map Network (issuedBeforeSettle resp calls)
                                     @ InFlightDel (Trade.requestId trade)
                                     # map LateNetwork (issuedLater resp calls)
                              else map Network calls @ [Traded (Trade.requestId trade)])
                           @ log3))))
       \<and> (cacheFull c2 \<longrightarrow>
            inFlight_set c2 t1 (Trade.requestId trade) 30 = Inl CacheFull
            \<and> execute ex (pre @ (trade, resp) # post) inFlight now
                = (Inl CacheFull, c2, t1, log1))"
proof (intro conjI impI)
  let ?rid = "Trade.requestId trade"
  {
    assume room: "\<not> cacheFull c2"
    let ?cs = "c2\<lparr>entries := cache_set (entries c2) t1 ?rid 30,
                   keys := (if entries c2 ?rid = None then keys c2 + 1 else keys c2)\<rparr>"
    have set: "inFlight_set c2 t1 ?rid 30 = Inr ?cs"
      using room by (simp add: inFlight_set_def)
    have entry: "entries ?cs ?rid = Some (t1 + 30000)"
      by (simp add: cache_set_def)
    have gone: "entries (inFlight_del ?cs ?rid) ?rid = None"
      by (simp add: inFlight_del_def cache_set_def cache_del_def)
    obtain r3 c3 t3 log3 where post:
      "execute ex post (if isl result then inFlight_del ?cs ?rid else ?cs) (t1 + elapsed resp)
         = (r3, c3, t3, log3)"
      by (metis prod_cases4)
    have step: "execute ex ((trade, resp) # post) c1 t1 =
        (r3, c3, t3,
         InFlightSet ?rid 30
           # (if isl result
              then map Network (issuedBeforeSettle resp calls) @ InFlightDel ?rid
                     # map LateNetwork (issuedLater resp calls)
              else map Network calls @ [Traded ?rid])
           @ log3)"
      using assms(2,3) set post by (cases result) simp_all
    have run: "execute ex (pre @ (trade, resp) # post) inFlight now =
        (r3, c3, t3,
         log1 @ InFlightSet ?rid 30
           # (if isl result
              then map Network (issuedBeforeSettle resp calls) @ InFlightDel ?rid
                     # map LateNetwork (issuedLater resp calls)
              else map Network calls @ [Traded ?rid])
           @ log3)"
      by (simp add: execute_append assms(1) step del: execute.simps)
    from set entry gone post run
    show "\<exists>cs. inFlight_set c2 t1 ?rid 30 = Inr cs
              \<and> entries cs ?rid = Some (t1 + 30000)
              \<and> entries (inFlight_del cs ?rid) ?rid = None
              \<and> (case execute ex post (if isl result then inFlight_del cs ?rid else cs)
                         (t1 + elapsed resp) of
                    (r3, c3, t3, log3) \<Rightarrow>
                      execute ex (pre @ (trade, resp) # post) inFlight now =
                        (r3, c3, t3,
                         log1 @ InFlightSet ?rid 30
                           # (if isl result
                              then map Network (issuedBeforeSettle resp calls)
                                     @ InFlightDel ?rid
                                     # map LateNetwork (issuedLater resp calls)
                              else map Network calls @ [Traded ?rid])
                           @ log3))"
      by (intro exI [of _ ?cs]) simp
  }
  {
    assume full: "cacheFull c2"
    then show set: "inFlight_set c2 t1 ?rid 30 = Inl CacheFull"
      by (simp add: inFlight_set_def)
    have step: "execute ex ((trade, resp) # post) c1 t1 = (Inl CacheFull, c2, t1, [])"
      using assms(2) set by simp
    show "execute ex (pre @ (trade, resp) # post) inFlight now = (Inl CacheFull, c2, t1, log1)"
      by (simp add: execute_append assms(1) step del: execute.simps)
  }
qed

lemma exTransfer12_ids_differ:
  "Transfer.requestId exTransfer1 \<noteq> Transfer.requestId exTransfer2"
  by simp

lemma exKey_prefix: "take 3 (exKey i) = ''0x0''"
  by (simp add: exKey_def)

lemma exKey_not_exTransfer:
  "exKey i \<noteq> Transfer.requestId exTransfer1" "exKey i \<noteq> Transfer.requestId exTransfer2"
proof -
  have "take 3 (Transfer.requestId exTransfer1) = ''0xa''"
    "take 3 (Transfer.requestId exTransfer2) = ''0xa''"
    by simp_all
  with exKey_prefix [of i]
  show "exKey i \<noteq> Transfer.requestId exTransfer1" "exKey i \<noteq> Transfer.requestId exTransfer2"
    by auto
qed

lemma digit_char_inj:
  fixes a b :: nat
  assumes "(char_of (48 + a) :: char) = char_of (48 + b)" and "a < 10" and "b < 10"
  shows "a = b"
proof -
  from assms(1) have "(of_char (char_of (48 + a) :: char) :: nat) = of_char (char_of (48 + b) :: char)"
    by simp
  with assms(2,3) show ?thesis
    by (simp add: of_char_of)
qed

lemma digits_determine:
  fixes i j :: nat
  assumes "i div 100 = j div 100" "i div 10 mod 10 = j div 10 mod 10" "i mod 10 = j mod 10"
  shows "i = j"
proof -
  have "i div 10 div 10 = j div 10 div 10"
    using assms(1) by (simp add: div_mult2_eq [symmetric])
  with assms(2) have "i div 10 = j div 10"
    by (metis div_mult_mod_eq)
  with assms(3) show ?thesis
    by (metis div_mult_mod_eq)
qed

lemma exKey_inj: "inj_on exKey {0..<1000}"
proof (rule inj_onI)
  fix i j :: nat
  assume i: "i \<in> {0..<1000}" and j: "j \<in> {0..<1000}" and eq: "exKey i = exKey j"
  from eq have
    "(char_of (48 + i div 100) :: char) = char_of (48 + j div 100)"
    "(char_of (48 + i div 10 mod 10) :: char) = char_of (48 + j div 10 mod 10)"
    "(char_of (48 + i mod 10) :: char) = char_of (48 + j mod 10)"
    by (simp_all add: exKey_def)
  moreover from i j have "i div 100 < 10" "j div 100 < 10" by simp_all
  ultimately have "i div 100 = j div 100" "i div 10 mod 10 = j div 10 mod 10" "i mod 10 = j mod 10"
    by (auto intro: digit_char_inj)
  then show "i = j" by (rule digits_determine)
qed

lemma exFullCache_fields:
  "entries exFullCache = map_of (map (\<lambda>i. (exKey i, 30000 + 500 * i)) [0..<1000])"
  "keys exFullCache = 1000"
  "maxKeys exFullCache = Some 1000"
  by (simp_all only: exFullCache_def InFlightCache.simps)

lemma exFullCache_dom: "dom (entries exFullCache) = exKey ` {0..<1000}"
proof -
  have "fst ` set (map (\<lambda>i. (exKey i, 30000 + 500 * i)) [0..<1000]) = exKey ` {0..<1000}"
    by (simp only: set_map image_image fst_conv set_upt)
  then show ?thesis
    by (simp only: exFullCache_fields dom_map_of_conv_image_fst)
qed

lemma exFullCache_count: "keys exFullCache = card (dom (entries exFullCache))"
proof -
  have "card (dom (entries exFullCache)) = 1000 - 0"
    by (simp only: exFullCache_dom card_image [OF exKey_inj] card_atLeastLessThan)
  then show ?thesis
    by (simp only: exFullCache_fields(2) diff_zero)
qed

lemma exFullCache_absent:
  "entries exFullCache (Transfer.requestId exTransfer1) = None"
proof -
  have "Transfer.requestId exTransfer1 \<notin> dom (entries exFullCache)"
    unfolding exFullCache_dom using exKey_not_exTransfer(1) by (metis imageE)
  then show ?thesis by (simp only: domIff not_not)
qed

lemma exFullCache_full: "cacheFull exFullCache"
  by (simp add: cacheFull_def exFullCache_fields)

lemma exFullCache_has:
  "inFlight_has exFullCache now (Trade.requestId (toTrade exTransfer1)) = (False, exFullCache)"
  by (simp only: ex_trades inFlight_has_def exFullCache_absent option.case)


theorem in_flight_discipline_witness:
  "inFlight_has exEmptyCache 1200 (Trade.requestId (toTrade exTransfer1)) = (False, exEmptyCache)
   \<and> \<not> cacheFull exEmptyCache
   \<and> fst (executeTrade exExecutor (toTrade exTransfer2) (exResponse None TxStatusZero))
       = Inl ErrorSubmittingSwap
   \<and> fst (executeTrade exExecutor (toTrade exTransfer1) (exResponse None TxConfirmed)) = Inr ()
   \<and> bookkeeping (snd (snd (snd (execute exExecutor
         ([(toTrade exTransfer2, exResponse None TxStatusZero)]
            @ (toTrade exTransfer1, exResponse None TxConfirmed)
            # [(toTrade exTransfer1, exResponse None TxConfirmed)])
         exEmptyCache 0))))
       = [InFlightSet (Transfer.requestId exTransfer2) 30,
          InFlightDel (Transfer.requestId exTransfer2),
          InFlightSet (Transfer.requestId exTransfer1) 30,
          Traded (Transfer.requestId exTransfer1),
          Skipped (Transfer.requestId exTransfer1)]
   \<and> fst (snd (execute exExecutor
         ([(toTrade exTransfer2, exResponse None TxStatusZero)]
            @ (toTrade exTransfer1, exResponse None TxConfirmed)
            # [(toTrade exTransfer1, exResponse None TxConfirmed)])
         exEmptyCache 0))
       = \<lparr> entries = [Transfer.requestId exTransfer1 \<mapsto> 31200], keys = 1,
           maxKeys = Some 1000 \<rparr>
   \<and> cacheFull exFullCache
   \<and> inFlight_has exFullCache 500000 (Trade.requestId (toTrade exTransfer1)) = (False, exFullCache)
   \<and> execute exExecutor
         ([] @ (toTrade exTransfer1, exResponse None TxConfirmed)
            # [(toTrade exTransfer2, exResponse None TxConfirmed)])
         exFullCache 500000
       = (Inl CacheFull, exFullCache, 500000, [])"
proof -
  let ?id1 = "Transfer.requestId exTransfer1"
  let ?id2 = "Transfer.requestId exTransfer2"
  let ?fail = "exResponse None TxStatusZero"
  let ?ok = "exResponse None TxConfirmed"
  let ?calls2 = "snd (executeTrade exExecutor (toTrade exTransfer2) ?fail)"
  let ?calls1 = "snd (executeTrade exExecutor (toTrade exTransfer1) ?ok)"
  let ?log1 = "InFlightSet ?id2 30 # map Network ?calls2 @ [InFlightDel ?id2]"
  let ?cs = "\<lparr> entries = [?id1 \<mapsto> 31200], keys = 1, maxKeys = Some 1000 \<rparr>"
  have rid: "Trade.requestId (toTrade exTransfer1) = ?id1"
    "Trade.requestId (toTrade exTransfer2) = ?id2"
    by (simp_all only: ex_trades)
  have e2: "fst (executeTrade exExecutor (toTrade exTransfer2) ?fail) = Inl ErrorSubmittingSwap"
    by (simp add: executeTrade_exs relayError_def)
  have e1: "executeTrade exExecutor (toTrade exTransfer1) ?ok = (Inr (), ?calls1)"
    by (simp add: executeTrade_exs)
  have e1f: "fst (executeTrade exExecutor (toTrade exTransfer1) ?ok) = Inr ()"
    by (simp add: executeTrade_exs)
  have pre: "execute exExecutor [(toTrade exTransfer2, ?fail)] exEmptyCache 0
               = (Inr (), exEmptyCache, 1200, ?log1)"
    by (simp add: executeTrade_exs relayError_def exEmptyCache_def inFlight_has_def
          inFlight_set_def inFlight_del_def cacheFull_def cache_set_def cache_del_def
          issuedBeforeSettle_def issuedLater_def)
  have nf: "inFlight_has exEmptyCache 1200 (Trade.requestId (toTrade exTransfer1))
              = (False, exEmptyCache)"
    by (simp add: inFlight_has_def exEmptyCache_def)
  have room: "\<not> cacheFull exEmptyCache"
    by (simp add: cacheFull_def exEmptyCache_def)
  have set: "inFlight_set exEmptyCache 1200 (Trade.requestId (toTrade exTransfer1)) 30 = Inr ?cs"
    by (simp only: rid) (simp add: inFlight_set_def cacheFull_def exEmptyCache_def cache_set_def)
  have post: "execute exExecutor [(toTrade exTransfer1, ?ok)]
                (if isl (Inr () :: error + unit)
                 then inFlight_del ?cs (Trade.requestId (toTrade exTransfer1)) else ?cs)
                (1200 + elapsed ?ok)
              = (Inr (), ?cs, 2400, [Skipped ?id1])"
    by (simp only: rid) (simp add: inFlight_has_def)
  note inst = in_flight_discipline [OF pre nf e1, of "[(toTrade exTransfer1, ?ok)]"]
  note roomcase = inst [THEN conjunct1, THEN mp, OF room]
  from roomcase
  obtain cs where cs: "inFlight_set exEmptyCache 1200 (Trade.requestId (toTrade exTransfer1)) 30
                         = Inr cs"
    and run0: "(case execute exExecutor [(toTrade exTransfer1, ?ok)]
                       (if isl (Inr () :: error + unit)
                        then inFlight_del cs (Trade.requestId (toTrade exTransfer1)) else cs)
                       (1200 + elapsed ?ok) of
                  (r3, c3, t3, log3) \<Rightarrow>
                    execute exExecutor
                      ([(toTrade exTransfer2, ?fail)] @ (toTrade exTransfer1, ?ok)
                         # [(toTrade exTransfer1, ?ok)]) exEmptyCache 0 =
                      (r3, c3, t3,
                       ?log1 @ InFlightSet (Trade.requestId (toTrade exTransfer1)) 30
                         # (if isl (Inr () :: error + unit)
                            then map Network (issuedBeforeSettle ?ok ?calls1)
                                   @ InFlightDel (Trade.requestId (toTrade exTransfer1))
                                   # map LateNetwork (issuedLater ?ok ?calls1)
                            else map Network ?calls1
                                   @ [Traded (Trade.requestId (toTrade exTransfer1))])
                         @ log3))"
    by (elim exE conjE) (rule that)
  from cs have cseq: "cs = ?cs" by (simp only: set sum.inject)
  note run1 = run0 [unfolded cseq]
  note run2 = run1 [unfolded post prod.case]
  from run2
  have run: "execute exExecutor
         ([(toTrade exTransfer2, ?fail)] @ (toTrade exTransfer1, ?ok) # [(toTrade exTransfer1, ?ok)])
         exEmptyCache 0
       = (Inr (), ?cs, 2400,
          ?log1 @ InFlightSet ?id1 30 # (map Network ?calls1 @ [Traded ?id1]) @ [Skipped ?id1])"
    by (simp only: rid sum.disc if_False)
  have bk: "bookkeeping (map Network cs @ evs) = bookkeeping evs" for cs evs
    by (induction cs) simp_all
  have b: "bookkeeping (?log1 @ InFlightSet ?id1 30 # (map Network ?calls1 @ [Traded ?id1])
              @ [Skipped ?id1])
        = [InFlightSet ?id2 30, InFlightDel ?id2, InFlightSet ?id1 30, Traded ?id1, Skipped ?id1]"
    by (simp only: append_Cons append_Nil bookkeeping_simps bk append_assoc)
  have fullrun: "execute exExecutor
         ([] @ (toTrade exTransfer1, ?ok) # [(toTrade exTransfer2, ?ok)]) exFullCache 500000
       = (Inl CacheFull, exFullCache, 500000, [])"
  proof -
    have p0: "execute exExecutor [] exFullCache 500000 = (Inr (), exFullCache, 500000, [])"
      by simp
    note inst2 = in_flight_discipline [OF p0 exFullCache_has e1, of "[(toTrade exTransfer2, ?ok)]"]
    from inst2 [THEN conjunct2, THEN mp, OF exFullCache_full, THEN conjunct2]
    show ?thesis .
  qed
  have r1: "bookkeeping (snd (snd (snd (execute exExecutor
         ([(toTrade exTransfer2, ?fail)] @ (toTrade exTransfer1, ?ok) # [(toTrade exTransfer1, ?ok)])
         exEmptyCache 0))))
       = [InFlightSet ?id2 30, InFlightDel ?id2, InFlightSet ?id1 30, Traded ?id1, Skipped ?id1]"
    by (simp only: run snd_conv b)
  have r2: "fst (snd (execute exExecutor
         ([(toTrade exTransfer2, ?fail)] @ (toTrade exTransfer1, ?ok) # [(toTrade exTransfer1, ?ok)])
         exEmptyCache 0)) = ?cs"
    by (simp only: run snd_conv fst_conv)
  show ?thesis
    by (intro conjI nf room e2 e1f r1 r2 exFullCache_full exFullCache_has fullrun)
qed

text \<open>
  With 1000 ids counted the cache is full: \<open>set\<close> throws for the next trade,
  nothing is stored for it, and \<open>execute\<close> throws without looking at the trade after
  it.
\<close>

theorem full_cache_counterexample:
  "keys exFullCache = card (dom (entries exFullCache))
   \<and> maxKeys exFullCache = Some 1000
   \<and> keys exFullCache = 1000
   \<and> fst (inFlight_has exFullCache 500000 (Trade.requestId (toTrade exTransfer1))) = False
   \<and> execute exExecutor
        [(toTrade exTransfer1, exResponse None TxConfirmed),
         (toTrade exTransfer2, exResponse None TxConfirmed)]
        exFullCache 500000
       = (Inl CacheFull, exFullCache, 500000, [])"
proof -
  have run: "execute exExecutor
        [(toTrade exTransfer1, exResponse None TxConfirmed),
         (toTrade exTransfer2, exResponse None TxConfirmed)]
        exFullCache 500000
       = (Inl CacheFull, exFullCache, 500000, [])"
    by (simp add: exFullCache_has inFlight_set_def exFullCache_full del: ex_trades)
  have cap: "maxKeys exFullCache = Some 1000" and n: "keys exFullCache = 1000"
    by (simp_all only: exFullCache_fields)
  have nf: "fst (inFlight_has exFullCache 500000 (Trade.requestId (toTrade exTransfer1))) = False"
    by (simp only: exFullCache_has fst_conv)
  show ?thesis
    by (intro conjI exFullCache_count cap n nf run)
qed

section \<open>Profit estimate\<close>

lemma gasCacheDefault_empty: "gasCacheDefault Map.empty"
  by (simp add: gasCacheDefault_def)

lemma getGasPrice_default:
  "gasCacheDefault cache \<Longrightarrow> fst (getGasPrice cache now chainId) = freshGasPrice chainId"
  by (auto simp: getGasPrice_def gasCacheDefault_def split: option.splits)

lemma getGasPrice_keeps:
  "gasCacheDefault cache \<Longrightarrow> gasCacheDefault (snd (getGasPrice cache now chainId))"
  by (auto simp: getGasPrice_def gasCacheDefault_def split: option.splits if_splits)

lemma freshGasPrice_table:
  "freshGasPrice chainId =
     (if chainId = 1 then 20000000000
      else if chainId = 137 then 30000000000
      else if chainId = 42161 then 100000000
      else if chainId = 10 then 1000000
      else 20000000000)"
  by (simp add: freshGasPrice_def defaultGasPrices_def)

lemma bigintToNumber_fee: "bigintToNumber 10000000000000000 = 10000000000000000"
  by (simp add: bigintToNumber_def bitLength.simps Let_def)

text \<open>
  C9: for a candidate of the scored evaluator with a positive \<open>solverFee\<close>, the
  estimated net profit is \<open>max 0 (solverFee - 150000 * gasPrice - amountOut * 1000 * 60
  div 3600000)\<close> in integer arithmetic, where the gas price of the (normalised)
  destination chain is 20 gwei for chain 1, 30 gwei for 137, 0.1 gwei for 42161, 0.001
  gwei for 10 and 20 gwei for any other chain; the profit score is the quotient, as
  doubles, of the profit and the fee.
\<close>

theorem profit_estimate:
  assumes "gasCacheDefault cache"
    and "0 < solverFee (params transfer)"
  shows "fst (estimateProfit cache now (toTrade transfer) transfer)
           = max 0 (int (solverFee (params transfer))
                    - 150000 * int (let c = normalizeChainId (dstChainId (params transfer)) in
                                     if c = 1 then 20000000000
                                     else if c = 137 then 30000000000
                                     else if c = 42161 then 100000000
                                     else if c = 10 then 1000000
                                     else 20000000000)
                    - int (amountOut (params transfer) * 1000 * 60 div 3600000))
         \<and> fst (calculateProfitScore numberZero numberDiv cache now (toTrade transfer) transfer)
           = numberDiv (bigintToNumber (nat (fst (estimateProfit cache now (toTrade transfer) transfer))))
                       (bigintToNumber (solverFee (params transfer)))
         \<and> gasCacheDefault (snd (estimateProfit cache now (toTrade transfer) transfer))"
proof -
  let ?c = "normalizeChainId (dstChainId (params transfer))"
  obtain g cache1 where g: "getGasPrice cache now ?c = (g, cache1)"
    by (cases "getGasPrice cache now ?c")
  from getGasPrice_default [OF assms(1), of now ?c] g have gv: "g = freshGasPrice ?c" by simp
  from getGasPrice_keeps [OF assms(1), of now ?c] g have c1: "gasCacheDefault cache1" by simp
  have dst: "destChainId (toTrade transfer) = dstChainId (params transfer)"
    and amt: "swapAmount (toTrade transfer) = amountOut (params transfer)"
    by (simp_all add: toTrade_def)
  have ep: "estimateProfit cache now (toTrade transfer) transfer =
        (max 0 (int (solverFee (params transfer)) - 150000 * int (freshGasPrice ?c)
                 - int (amountOut (params transfer) * 1000 * 60 div 3600000)), cache1)"
    by (simp add: estimateProfit_def estimateGasCost_def estimateOpportunityCost_def dst amt g gv
          Let_def max_def)
  show ?thesis
    using assms(2) c1
    by (simp add: ep calculateProfitScore_def freshGasPrice_table Let_def)
qed

theorem profit_estimate_witness:
  "gasCacheDefault Map.empty
   \<and> 0 < solverFee (params exTransferArb)
   \<and> fst (estimateProfit Map.empty 0 (toTrade exTransferArb) exTransferArb) = 8985000000000000
   \<and> fst (calculateProfitScore (0, 0) Pair Map.empty 0 (toTrade exTransferArb) exTransferArb)
       = (8985000000000000, 10000000000000000)"
  using profit_estimate [where cache = Map.empty and transfer = exTransferArb and now = 0
      and numberZero = "(0::nat, 0::nat)" and numberDiv = Pair]
  by (simp add: gasCacheDefault_empty exTransferArb_def exParams_def normalizeChainId_exact
        bigintToNumber_exact bigintToNumber_fee estimateProfit_def estimateGasCost_def getGasPrice_def
        freshGasPrice_def defaultGasPrices_def estimateOpportunityCost_def
        calculateProfitScore_def toTrade_def Let_def)

end
